theory Spec2Isabelle
  imports Complex_Main
begin

section \<open>Strings as the pricing code reads them\<close>

text \<open>
  A JavaScript string is modelled as a \<open>string\<close> (a list of bytes). The two string
  methods that \<^verbatim>\<open>src/utils/delivery.js\<close> calls are modelled on the ASCII range:
  \<^verbatim>\<open>toLowerCase\<close> maps \<open>A\<close>..\<open>Z\<close> to \<open>a\<close>..\<open>z\<close> and leaves every other byte alone,
  \<^verbatim>\<open>trim\<close> removes leading and trailing ASCII white space (space, tab, line feed,
  vertical tab, form feed, carriage return).
\<close>

definition upper_letters :: string where
  "upper_letters = ''ABCDEFGHIJKLMNOPQRSTUVWXYZ''"

definition lower_letters :: string where
  "lower_letters = ''abcdefghijklmnopqrstuvwxyz''"

definition toLowerCase_char :: "char \<Rightarrow> char" where
  "toLowerCase_char c =
     (case map_of (zip upper_letters lower_letters) c of Some d \<Rightarrow> d | None \<Rightarrow> c)"

definition toLowerCase :: "string \<Rightarrow> string" where
  "toLowerCase s = map toLowerCase_char s"

definition is_space :: "char \<Rightarrow> bool" where
  "is_space c = (c \<in> set [CHR '' '', CHR 0x09, CHR 0x0A, CHR 0x0B, CHR 0x0C, CHR 0x0D])"

definition trim :: "string \<Rightarrow> string" where
  "trim s = rev (dropWhile is_space (rev (dropWhile is_space s)))"

section \<open>The pricing engine (src/utils/delivery.js)\<close>

text \<open>
  A JavaScript number is an IEEE-754 double. A finite double is modelled by its value, a
  rational number. \<open>fl x\<close> is the double nearest to the rational \<open>x\<close>: the significand has
  53 bits, a tie goes to the even significand, and below \<open>2 powi (- 1022)\<close> the spacing
  stays \<open>2 powi (- 1074)\<close> (gradual underflow). \<open>ilog2 y\<close> is the exponent of the power of
  two at or below a positive \<open>y\<close>.

  The exponent is not bounded above: a result of magnitude \<open>2 ^ 1024\<close> or more, which
  JavaScript turns into \<^verbatim>\<open>Infinity\<close>, has no counterpart here, and neither have
  \<^verbatim>\<open>NaN\<close> and the sign of zero. The predicate \<open>amounts_in_range\<close> below keeps every
  number of a pricing run under \<open>2 ^ 36\<close>, where none of them arises.
\<close>

function ilog2 :: "rat \<Rightarrow> int" where
  "ilog2 y =
     (if y \<le> 0 then 0
      else if 2 \<le> y then ilog2 (y / 2) + 1
      else if y < 1 then ilog2 (y * 2) - 1
      else 0)"
  by pat_completeness auto
termination
proof (relation "measure (\<lambda>y. if 1 \<le> y then nat \<lfloor>y\<rfloor> else nat \<lfloor>1 / y\<rfloor> + 1)")
  show "wf (measure (\<lambda>y. if 1 \<le> y then nat \<lfloor>y\<rfloor> else nat \<lfloor>1 / y\<rfloor> + 1))" by simp
next
  fix y :: rat
  assume "\<not> y \<le> 0" "2 \<le> y"
  then have "\<lfloor>y / 2\<rfloor> < \<lfloor>y\<rfloor>" "1 \<le> y / 2" "0 \<le> \<lfloor>y / 2\<rfloor>" by linarith+
  then show "(y / 2, y) \<in> measure (\<lambda>y. if 1 \<le> y then nat \<lfloor>y\<rfloor> else nat \<lfloor>1 / y\<rfloor> + 1)"
    using \<open>2 \<le> y\<close> by simp
next
  fix y :: rat
  assume a: "\<not> y \<le> 0" "\<not> 2 \<le> y" "y < 1"
  show "(y * 2, y) \<in> measure (\<lambda>y. if 1 \<le> y then nat \<lfloor>y\<rfloor> else nat \<lfloor>1 / y\<rfloor> + 1)"
  proof (cases "1 \<le> y * 2")
    case True
    then have "\<lfloor>y * 2\<rfloor> = 1" using a by linarith
    moreover have "1 \<le> \<lfloor>1 / y\<rfloor>" using a by (simp add: le_floor_iff)
    ultimately show ?thesis using True a by simp
  next
    case False
    have "1 / (y * 2) = (1 / y) / 2" by simp
    moreover have "2 \<le> 1 / y" using False a by (simp add: field_simps)
    ultimately have "\<lfloor>1 / (y * 2)\<rfloor> < \<lfloor>1 / y\<rfloor>" by linarith
    moreover have "0 \<le> \<lfloor>1 / (y * 2)\<rfloor>" using a by simp
    ultimately show ?thesis using False a by simp
  qed
qed

declare ilog2.simps [simp del]

definition round_half_even :: "rat \<Rightarrow> int" where
  "round_half_even y =
     (let n = \<lfloor>y\<rfloor>; r = y - of_int n
      in if r < 1 / 2 then n else if 1 / 2 < r then n + 1 else if even n then n else n + 1)"

definition fl :: "rat \<Rightarrow> rat" where
  "fl x =
     (if x = 0 then 0
      else let e = max (ilog2 \<bar>x\<bar> - 52) (- 1074)
           in of_int (round_half_even (x / 2 powi e)) * 2 powi e)"

text \<open>
  \<open>js_number\<close> reads a decimal value (a JSON number that the database returns, a number
  of the request) as a double. The four operators round the exact result of their double
  operands. \<^verbatim>\<open>Math.round(x)\<close> is the integer nearest to the double \<open>x\<close>, a tie going up;
  it is exact.
\<close>

definition js_number :: "rat \<Rightarrow> rat" where
  "js_number x = fl x"

definition js_add :: "rat \<Rightarrow> rat \<Rightarrow> rat" where
  "js_add a b = fl (a + b)"

definition js_sub :: "rat \<Rightarrow> rat \<Rightarrow> rat" where
  "js_sub a b = fl (a - b)"

definition js_mul :: "rat \<Rightarrow> rat \<Rightarrow> rat" where
  "js_mul a b = fl (a * b)"

definition js_div :: "rat \<Rightarrow> rat \<Rightarrow> rat" where
  "js_div a b = fl (a / b)"

definition Math_round :: "rat \<Rightarrow> int" where
  "Math_round x = \<lfloor>x + 1 / 2\<rfloor>"

definition round2 :: "rat \<Rightarrow> rat" where
  \<comment> \<open>\<^verbatim>\<open>Math.round(x * 100) / 100\<close>\<close>
  "round2 x = js_div (of_int (Math_round (js_mul x 100))) 100"

definition to_kobo :: "rat \<Rightarrow> int" where
  \<comment> \<open>\<^verbatim>\<open>Math.round(order.total * 100)\<close>, the amount in the minor unit\<close>
  "to_kobo x = Math_round (js_mul x 100)"

text \<open>
  \<^verbatim>\<open>calculateDeliveryFee(state)\<close>. The argument is \<open>None\<close> for \<^verbatim>\<open>undefined\<close> or
  \<^verbatim>\<open>null\<close>; \<^verbatim>\<open>!state\<close> holds for these and for the empty string.
\<close>

definition nearbyStates :: "string list" where
  "nearbyStates = [''ogun'', ''oyo'', ''osun'', ''ondo'', ''ekiti'', ''edo'']"

definition falsy :: "string option \<Rightarrow> bool" where
  "falsy v = (case v of None \<Rightarrow> True | Some s \<Rightarrow> s = [])"

definition calculateDeliveryFee :: "string option \<Rightarrow> rat" where
  "calculateDeliveryFee state =
     (case state of
        None \<Rightarrow> 9000
      | Some s \<Rightarrow>
          if s = [] then 9000
          else let normalizedState = trim (toLowerCase s) in
            if normalizedState = ''lagos'' then 10000
            else if normalizedState \<in> set nearbyStates then 23000
            else 27000)"

record item =
  product_id :: string
  product_name :: string
  quantity :: int
  price :: rat

record discount =
  percentage :: rat
  valid_until :: int

record totals =
  subtotal :: rat
  deliveryFee :: rat
  discountAmount :: rat
  total :: rat

definition line_amount :: "item \<Rightarrow> rat" where
  \<comment> \<open>\<^verbatim>\<open>item.price * item.quantity\<close>\<close>
  "line_amount i = js_mul (js_number (price i)) (js_number (of_int (quantity i)))"

definition raw_subtotal :: "item list \<Rightarrow> rat" where
  \<comment> \<open>\<^verbatim>\<open>items.reduce((total, item) => total + item.price * item.quantity, 0)\<close>\<close>
  "raw_subtotal items = foldl (\<lambda>acc i. js_add acc (line_amount i)) 0 items"

definition raw_discount :: "item list \<Rightarrow> discount option \<Rightarrow> rat" where
  \<comment> \<open>the unrounded \<^verbatim>\<open>discountAmount\<close>; a zero percentage is falsy and leaves it at 0\<close>
  "raw_discount items d =
     (case d of
        None \<Rightarrow> 0
      | Some dd \<Rightarrow>
          if js_number (percentage dd) \<noteq> 0
          then js_div (js_mul (raw_subtotal items) (js_number (percentage dd))) 100
          else 0)"

definition calculateOrderTotals :: "item list \<Rightarrow> string option \<Rightarrow> discount option \<Rightarrow> totals" where
  "calculateOrderTotals items state d =
     (let sub = raw_subtotal items;
          fee = calculateDeliveryFee state;
          disc = raw_discount items d;
          tot = js_sub (js_add sub fee) disc
      in \<lparr> subtotal = round2 sub,
           deliveryFee = fee,
           discountAmount = round2 disc,
           total = round2 tot \<rparr>)"

text \<open>
  The range in which the model above is the code: every number that a pricing run reads
  or computes up to the unrounded discount stays within \<open>amount_limit\<close> in magnitude.
  (Prices are \<open>DECIMAL(10,2)\<close> columns, below \<open>10 ^ 8\<close>.)
\<close>

definition amount_limit :: rat where
  "amount_limit = 2 ^ 36"

fun subtotal_in_range :: "rat \<Rightarrow> item list \<Rightarrow> bool" where
  "subtotal_in_range acc [] = (\<bar>acc\<bar> \<le> amount_limit)"
| "subtotal_in_range acc (i # is) =
     (\<bar>acc\<bar> \<le> amount_limit \<and> \<bar>price i\<bar> \<le> amount_limit
      \<and> \<bar>of_int (quantity i)\<bar> \<le> amount_limit \<and> \<bar>line_amount i\<bar> \<le> amount_limit
      \<and> subtotal_in_range (js_add acc (line_amount i)) is)"

definition amounts_in_range :: "item list \<Rightarrow> discount option \<Rightarrow> bool" where
  "amounts_in_range items d =
     (subtotal_in_range 0 items
      \<and> (case d of
            None \<Rightarrow> True
          | Some dd \<Rightarrow>
              \<bar>percentage dd\<bar> \<le> amount_limit
              \<and> \<bar>js_mul (raw_subtotal items) (js_number (percentage dd))\<bar> \<le> amount_limit))"

definition nigerianStates :: "string list" where
  "nigerianStates =
     [''abia'', ''adamawa'', ''akwa ibom'', ''anambra'', ''bauchi'', ''bayelsa'',
      ''benue'', ''borno'', ''cross river'', ''delta'', ''ebonyi'', ''edo'',
      ''ekiti'', ''enugu'', ''gombe'', ''imo'', ''jigawa'', ''kaduna'',
      ''kano'', ''katsina'', ''kebbi'', ''kogi'', ''kwara'', ''lagos'',
      ''nasarawa'', ''niger'', ''ogun'', ''ondo'', ''osun'', ''oyo'',
      ''plateau'', ''rivers'', ''sokoto'', ''taraba'', ''yobe'', ''zamfara'',
      ''fct'', ''abuja'']"

definition validateNigerianState :: "string \<Rightarrow> bool" where
  "validateNigerianState state = (toLowerCase state \<in> set nigerianStates)"

section \<open>The database: products, cart and orders tables\<close>

text \<open>
  Each table is the list of its rows. \<^verbatim>\<open>.single()\<close> of the database client succeeds
  only on exactly one row.
\<close>

datatype pay_status = Pay_pending | Pay_success | Pay_failed

datatype ord_status =
  Ord_pending | Ord_payment_failed | Ord_processing | Ord_shipped | Ord_delivered | Ord_cancelled

record product_row =
  prod_id :: string
  prod_name :: string
  prod_price :: rat
  stock :: int

record cart_row =
  cart_user_id :: string
  cart_product_id :: string
  cart_quantity :: int

record order_row =
  order_id :: string
  user_id :: string
  order_items :: "item list"
  order_subtotal :: rat
  delivery_fee :: rat
  discount_code :: "string option"
  order_total :: rat
  order_state :: string
  order_city :: string
  order_address :: string
  order_phone :: "string option"
  payment_status :: pay_status
  order_status :: ord_status
  payment_reference :: "string option"

record db =
  products :: "product_row list"
  cart :: "cart_row list"
  orders :: "order_row list"

definition single :: "'a list \<Rightarrow> 'a option" where
  "single rows = (case rows of [r] \<Rightarrow> Some r | _ \<Rightarrow> None)"

definition product_by_id :: "string \<Rightarrow> db \<Rightarrow> product_row option" where
  "product_by_id pid st = single (filter (\<lambda>p. prod_id p = pid) (products st))"

definition order_by_id :: "string \<Rightarrow> db \<Rightarrow> order_row option" where
  "order_by_id oid st = single (filter (\<lambda>ord. order_id ord = oid) (orders st))"

definition update_order :: "string \<Rightarrow> (order_row \<Rightarrow> order_row) \<Rightarrow> db \<Rightarrow> db" where
  \<comment> \<open>\<^verbatim>\<open>from('orders').update(...).eq('id', oid)\<close>\<close>
  "update_order oid f st =
     st\<lparr>orders := map (\<lambda>ord. if order_id ord = oid then f ord else ord) (orders st)\<rparr>"

definition clear_cart :: "string \<Rightarrow> db \<Rightarrow> db" where
  \<comment> \<open>\<^verbatim>\<open>from('cart').delete().eq('user_id', uid)\<close>\<close>
  "clear_cart uid st = st\<lparr>cart := filter (\<lambda>c. cart_user_id c \<noteq> uid) (cart st)\<rparr>"

fun upsert_cart :: "cart_row \<Rightarrow> cart_row list \<Rightarrow> cart_row list" where
  \<comment> \<open>\<^verbatim>\<open>upsert(row, { onConflict: 'user_id,product_id' })\<close>\<close>
  "upsert_cart row [] = [row]"
| "upsert_cart row (c # cs) =
     (if cart_user_id c = cart_user_id row \<and> cart_product_id c = cart_product_id row
      then c\<lparr>cart_quantity := cart_quantity row\<rparr> # cs
      else c # upsert_cart row cs)"

definition cart_quantity_of :: "string \<Rightarrow> string \<Rightarrow> db \<Rightarrow> int option" where
  "cart_quantity_of uid pid st =
     map_option cart_quantity
       (find (\<lambda>c. cart_user_id c = uid \<and> cart_product_id c = pid) (cart st))"

text \<open>
  Modelled from the spec: the database function \<^verbatim>\<open>decrement_stock\<close>, which the webhook
  calls through \<^verbatim>\<open>rpc\<close>, is not among the repository's files. The spec (4.3 c) has it
  "decrement Inventory Ledger stock by the line quantity" of the product named. The
  handlers below take the function as a parameter.
\<close>

definition decrement_stock :: "string \<Rightarrow> int \<Rightarrow> db \<Rightarrow> db" where
  "decrement_stock pid q st =
     st\<lparr>products := map (\<lambda>p. if prod_id p = pid then p\<lparr>stock := stock p - q\<rparr> else p) (products st)\<rparr>"

section \<open>Replies of the handlers\<close>

record init_response =
  authorization_url :: string
  access_code :: string
  reference :: string

datatype reply =
  Err nat string
| Err_order nat string string
| Ok_cart cart_row
| Created order_row init_response
| Payment_initialized init_response
| Received
| Processed string
| Already_verified string
| Verified order_row

section \<open>Add to cart (src/routes/cart.js, POST /add)\<close>

definition cart_add :: "string \<Rightarrow> string option \<Rightarrow> int option \<Rightarrow> db \<Rightarrow> reply \<times> db" where
  "cart_add uid product_id_opt quantity_opt st =
     (let qty = (case quantity_opt of None \<Rightarrow> 1 | Some q \<Rightarrow> q) in
      case product_id_opt of
        None \<Rightarrow> (Err 400 ''Product ID is required'', st)
      | Some pid \<Rightarrow>
          if pid = [] then (Err 400 ''Product ID is required'', st)
          else
            (case product_by_id pid st of
               None \<Rightarrow> (Err 404 ''Product not found'', st)
             | Some product \<Rightarrow>
                 if stock product < qty then (Err 400 ''Insufficient stock'', st)
                 else
                   let row = \<lparr>cart_user_id = uid, cart_product_id = pid, cart_quantity = qty\<rparr>;
                       cart' = upsert_cart row (cart st)
                   in (case find (\<lambda>c. cart_user_id c = uid \<and> cart_product_id c = pid) cart' of
                         None \<Rightarrow> (Err 500 ''Failed to add product to cart'', st)
                       | Some cartItem \<Rightarrow> (Ok_cart cartItem, st\<lparr>cart := cart'\<rparr>))))"

section \<open>The payment webhook (POST /webhook)\<close>

text \<open>
  The request is its raw body and the value of the signature header (\<open>None\<close> when
  the header is absent). The collaborators are parameters: \<open>hmac_hex key body\<close> is the
  hexadecimal SHA-512 HMAC, \<open>json_parse\<close> is \<^verbatim>\<open>JSON.parse\<close> (\<open>None\<close> when it throws),
  \<open>rpc_decrement_stock\<close> is the database function, \<open>secret\<close> is the environment's
  \<^verbatim>\<open>PAYSTACK_SECRET_KEY\<close> (\<^verbatim>\<open>createHmac\<close> throws without one). An exception anywhere
  in the handler is caught and answered with status 500.
\<close>

record metadata =
  meta_order_id :: "string option"
  meta_user_id :: "string option"

record event_data =
  ev_reference :: "string option"
  ev_status :: "string option"
  ev_amount :: "rat option"
  ev_metadata :: "metadata option"

record event =
  ev_event :: string
  ev_data :: "event_data option"

definition set_reference :: "string option \<Rightarrow> order_row \<Rightarrow> order_row" where
  \<comment> \<open>an \<^verbatim>\<open>undefined\<close> field of an update object is not sent, so the column keeps its value\<close>
  "set_reference r ord = (case r of None \<Rightarrow> ord | Some v \<Rightarrow> ord\<lparr>payment_reference := Some v\<rparr>)"

definition charge_success ::
  "(string \<Rightarrow> int \<Rightarrow> db \<Rightarrow> db) \<Rightarrow> event_data \<Rightarrow> string \<Rightarrow> string \<Rightarrow> db \<Rightarrow> reply \<times> db" where
  "charge_success rpc_decrement_stock d oid uid st =
     (case order_by_id oid st of
        None \<Rightarrow> (Err 404 ''Order not found'', st)
      | Some ord \<Rightarrow>
          let st1 = update_order oid
                      (\<lambda>r. set_reference (ev_reference d)
                             (r\<lparr>payment_status := Pay_success, order_status := Ord_processing\<rparr>)) st
          in (case order_by_id oid st1 of
                None \<Rightarrow> (Err 500 ''Failed to update order'', st)
              | Some updatedOrder \<Rightarrow>
                  let st2 = clear_cart uid st1;
                      st3 = foldl (\<lambda>s i. rpc_decrement_stock (product_id i) (quantity i) s)
                              st2 (order_items ord)
                  in (Processed (order_id updatedOrder), st3)))"

definition charge_failed :: "event_data \<Rightarrow> db \<Rightarrow> reply \<times> db" where
  "charge_failed d st =
     (case ev_metadata d of
        None \<Rightarrow> (Received, st)
      | Some m \<Rightarrow>
          (case meta_order_id m of
             None \<Rightarrow> (Received, st)
           | Some oid \<Rightarrow>
               if oid = [] then (Received, st)
               else
                 (Received,
                  update_order oid
                    (\<lambda>r. set_reference (ev_reference d)
                           (r\<lparr>payment_status := Pay_failed, order_status := Ord_cancelled\<rparr>)) st)))"

definition handle_event ::
  "(string \<Rightarrow> int \<Rightarrow> db \<Rightarrow> db) \<Rightarrow> event \<Rightarrow> db \<Rightarrow> reply \<times> db" where
  "handle_event rpc_decrement_stock ev st =
     (if ev_event ev = ''charge.success'' then
        (case ev_data ev of
           None \<Rightarrow> (Err 500 ''Webhook processing failed'', st)
         | Some d \<Rightarrow>
             (case ev_metadata d of
                None \<Rightarrow> (Received, st)
              | Some m \<Rightarrow>
                  (case (meta_order_id m, meta_user_id m) of
                     (Some oid, Some uid) \<Rightarrow>
                       if oid \<noteq> [] \<and> uid \<noteq> []
                       then charge_success rpc_decrement_stock d oid uid st
                       else (Received, st)
                   | _ \<Rightarrow> (Received, st))))
      else if ev_event ev = ''charge.failed'' then
        (case ev_data ev of
           None \<Rightarrow> (Err 500 ''Webhook processing failed'', st)
         | Some d \<Rightarrow> charge_failed d st)
      else (Received, st))"

definition webhook ::
  "(string \<Rightarrow> string \<Rightarrow> string) \<Rightarrow> (string \<Rightarrow> event option) \<Rightarrow> (string \<Rightarrow> int \<Rightarrow> db \<Rightarrow> db) \<Rightarrow>
   string option \<Rightarrow> string \<Rightarrow> string option \<Rightarrow> db \<Rightarrow> reply \<times> db" where
  "webhook hmac_hex json_parse rpc_decrement_stock secret body signature st =
     (case secret of
        None \<Rightarrow> (Err 500 ''Webhook processing failed'', st)
      | Some key \<Rightarrow>
          if Some (hmac_hex key body) \<noteq> signature then (Err 401 ''Invalid signature'', st)
          else
            (case json_parse body of
               None \<Rightarrow> (Err 500 ''Webhook processing failed'', st)
             | Some ev \<Rightarrow> handle_event rpc_decrement_stock ev st))"

section \<open>Manual verification (POST /verify)\<close>

text \<open>
  \<open>paystack_verify\<close> is the gateway's answer to the verification call: the transaction's
  status, or a failed call (with or without a response body).
\<close>

datatype verify_result = Verify_ok string | Verify_http_error | Verify_network_error

definition verify ::
  "(string \<Rightarrow> verify_result) \<Rightarrow> string \<Rightarrow> string option \<Rightarrow> db \<Rightarrow> reply \<times> db" where
  "verify paystack_verify uid reference_opt st =
     (case reference_opt of
        None \<Rightarrow> (Err 400 ''Payment reference is required'', st)
      | Some ref \<Rightarrow>
          if ref = [] then (Err 400 ''Payment reference is required'', st)
          else
            (case paystack_verify ref of
               Verify_http_error \<Rightarrow> (Err 400 ''Payment verification failed'', st)
             | Verify_network_error \<Rightarrow> (Err 500 ''Failed to verify payment'', st)
             | Verify_ok status \<Rightarrow>
                 if status = ''success'' then
                   (case single (filter (\<lambda>r. payment_reference r = Some ref \<and> user_id r = uid)
                                   (orders st)) of
                      None \<Rightarrow> (Err 404 ''Order not found'', st)
                    | Some ord \<Rightarrow>
                        if payment_status ord = Pay_success
                        then (Already_verified (order_id ord), st)
                        else
                          let st1 = update_order (order_id ord)
                                      (\<lambda>r. r\<lparr>payment_status := Pay_success,
                                               order_status := Ord_processing\<rparr>) st
                          in (case order_by_id (order_id ord) st1 of
                                None \<Rightarrow> (Err 500 ''Failed to verify payment'', st)
                              | Some updatedOrder \<Rightarrow> (Verified updatedOrder, clear_cart uid st1)))
                 else (Err 400 ''Payment verification failed'', st)))"

section \<open>Order creation and payment retry (src/routes/orders.js)\<close>

text \<open>
  The generated payment reference is \<^verbatim>\<open>`order_${order.id}_${Date.now()}`\<close>;
  \<open>show_nat\<close> is the decimal numeral of the clock's milliseconds.
\<close>

definition digit_char :: "nat \<Rightarrow> char" where
  "digit_char n = ''0123456789'' ! n"

fun show_nat :: "nat \<Rightarrow> string" where
  "show_nat n =
     (if n < 10 then [digit_char n] else show_nat (n div 10) @ [digit_char (n mod 10)])"

declare show_nat.simps [simp del]

definition make_reference :: "string \<Rightarrow> nat \<Rightarrow> string" where
  "make_reference oid now = ''order_'' @ oid @ ''_'' @ show_nat now"

text \<open>
  The gateway's initialize call is a parameter: it answers a request with the
  authorization handle, or fails (\<open>None\<close>: an error status, a timeout, a network error,
  each of which makes \<^verbatim>\<open>axios.post\<close> throw). The database supplies the id of a new
  order (\<open>new_id\<close>) and the clock the milliseconds (\<open>now\<close>). The confirmation email
  between the insert and the gateway call touches no table and its failure is caught
  and ignored, so it is left out.
\<close>

record init_request =
  req_email :: string
  req_amount :: int
  req_reference :: string
  req_order_id :: string
  req_user_id :: string

record create_body =
  body_state :: "string option"
  body_city :: "string option"
  body_address :: "string option"
  body_phone :: "string option"
  body_discount_code :: "string option"
  body_email :: "string option"

definition or_null :: "string option \<Rightarrow> string option" where
  \<comment> \<open>\<^verbatim>\<open>value || null\<close>\<close>
  "or_null v = (if falsy v then None else v)"

fun build_order_items :: "db \<Rightarrow> cart_row list \<Rightarrow> reply + item list" where
  \<comment> \<open>the loop over the cart lines, each joined with its product\<close>
  "build_order_items st [] = Inr []"
| "build_order_items st (c # cs) =
     (case product_by_id (cart_product_id c) st of
        None \<Rightarrow> Inl (Err 500 ''Failed to create order'')
      | Some p \<Rightarrow>
          if stock p < cart_quantity c
          then Inl (Err 400 (''Insufficient stock for '' @ prod_name p))
          else
            (case build_order_items st cs of
               Inl e \<Rightarrow> Inl e
             | Inr orderItems \<Rightarrow>
                 Inr (\<lparr>product_id = prod_id p, product_name = prod_name p,
                       quantity = cart_quantity c, price = prod_price p\<rparr> # orderItems)))"

definition create_order ::
  "(init_request \<Rightarrow> init_response option) \<Rightarrow> string \<Rightarrow> nat \<Rightarrow> string \<Rightarrow> create_body \<Rightarrow> db \<Rightarrow>
   reply \<times> db" where
  "create_order paystack_initialize new_id now uid body st =
     (case (body_state body, body_city body, body_address body) of
        (Some state, Some city, Some address) \<Rightarrow>
          if state = [] \<or> city = [] \<or> address = []
          then (Err 400 ''Missing required fields: state, city, and address are required'', st)
          else
            (case body_email body of
               None \<Rightarrow> (Err 400 ''Email is required for payment processing'', st)
             | Some email \<Rightarrow>
                 if email = [] then (Err 400 ''Email is required for payment processing'', st)
                 else if \<not> validateNigerianState state
                 then (Err 400 ''Invalid Nigerian state'', st)
                 else
                   let cartItems = filter (\<lambda>c. cart_user_id c = uid) (cart st) in
                   if cartItems = [] then (Err 400 ''Cart is empty'', st)
                   else
                     (case build_order_items st cartItems of
                        Inl e \<Rightarrow> (e, st)
                      | Inr orderItems \<Rightarrow>
                          let tot = calculateOrderTotals orderItems (Some state) None;
                              ord = \<lparr>order_id = new_id, user_id = uid,
                                     order_items = orderItems,
                                     order_subtotal = subtotal tot,
                                     delivery_fee = deliveryFee tot,
                                     discount_code = or_null (body_discount_code body),
                                     order_total = total tot,
                                     order_state = state, order_city = city,
                                     order_address = address,
                                     order_phone = or_null (body_phone body),
                                     payment_status = Pay_pending,
                                     order_status = Ord_pending,
                                     payment_reference = None\<rparr>
                          in
                          if new_id \<in> order_id ` set (orders st)
                          then (Err 500 ''Failed to create order'', st)
                          else
                            let st1 = st\<lparr>orders := orders st @ [ord]\<rparr>;
                                req = \<lparr>req_email = email,
                                       req_amount = to_kobo (js_number (order_total ord)),
                                       req_reference = make_reference new_id now,
                                       req_order_id = new_id, req_user_id = uid\<rparr>
                            in (case paystack_initialize req of
                                  Some paystackData \<Rightarrow>
                                    (Created (ord\<lparr>payment_reference := Some (reference paystackData)\<rparr>)
                                       paystackData,
                                     update_order new_id
                                       (\<lambda>r. r\<lparr>payment_reference := Some (reference paystackData)\<rparr>) st1)
                                | None \<Rightarrow>
                                    (Err_order 500 ''Order created but payment initialization failed''
                                       new_id,
                                     update_order new_id
                                       (\<lambda>r. r\<lparr>order_status := Ord_payment_failed\<rparr>) st1))))
      | _ \<Rightarrow> (Err 400 ''Missing required fields: state, city, and address are required'', st))"

definition retry_payment ::
  "(init_request \<Rightarrow> init_response option) \<Rightarrow> nat \<Rightarrow> string \<Rightarrow> string \<Rightarrow> string option \<Rightarrow> db \<Rightarrow>
   reply \<times> db" where
  "retry_payment paystack_initialize now uid oid email_opt st =
     (case email_opt of
        None \<Rightarrow> (Err 400 ''Email is required'', st)
      | Some email \<Rightarrow>
          if email = [] then (Err 400 ''Email is required'', st)
          else
            (case single (filter (\<lambda>r. order_id r = oid \<and> user_id r = uid) (orders st)) of
               None \<Rightarrow> (Err 404 ''Order not found'', st)
             | Some ord \<Rightarrow>
                 if payment_status ord = Pay_success then (Err 400 ''Order already paid'', st)
                 else
                   let req = \<lparr>req_email = email,
                              req_amount = to_kobo (js_number (order_total ord)),
                              req_reference = make_reference (order_id ord) now,
                              req_order_id = order_id ord, req_user_id = uid\<rparr>
                   in (case paystack_initialize req of
                         None \<Rightarrow> (Err 500 ''Failed to initialize payment'', st)
                       | Some paystackData \<Rightarrow>
                           (Payment_initialized paystackData,
                            update_order (order_id ord)
                              (\<lambda>r. r\<lparr>payment_reference := Some (reference paystackData)\<rparr>) st))))"

text \<open>
  The spec's reading of a discount's validity, used to state its rule for the discount
  amount: a discount is expired once the day is past its \<open>valid_until\<close> date. The code
  has no counterpart.
\<close>

definition spec_expired :: "discount \<Rightarrow> int \<Rightarrow> bool" where
  "spec_expired d today = (valid_until d < today)"

definition spec_discount_amount :: "item list \<Rightarrow> discount option \<Rightarrow> int \<Rightarrow> rat" where
  "spec_discount_amount items d today =
     (case d of
        None \<Rightarrow> 0
      | Some dd \<Rightarrow>
          if spec_expired dd today then 0
          else (\<Sum>i\<leftarrow>items. price i * of_int (quantity i)) * percentage dd / 100)"

section \<open>Example data\<close>

definition ex_items :: "item list" where
  "ex_items = [\<lparr>product_id = ''p1'', product_name = ''Product A'', quantity = 2, price = 5000\<rparr>]"

definition ex_half_items :: "item list" where
  "ex_half_items = [\<lparr>product_id = ''p1'', product_name = ''Product A'', quantity = 1, price = 5 / 2\<rparr>]"

definition ex_decimal_items :: "item list" where
  "ex_decimal_items = [\<lparr>product_id = ''p2'', product_name = ''Product B'', quantity = 3, price = 1001 / 10\<rparr>]"

definition ex_discount :: discount where
  "ex_discount = \<lparr>percentage = 5, valid_until = 5\<rparr>"

definition ex_product :: product_row where
  "ex_product = \<lparr>prod_id = ''p1'', prod_name = ''Product A'', prod_price = 5000, stock = 10\<rparr>"

definition ex_cart_row :: cart_row where
  "ex_cart_row = \<lparr>cart_user_id = ''u1'', cart_product_id = ''p1'', cart_quantity = 2\<rparr>"

definition ex_order :: order_row where
  "ex_order =
     \<lparr>order_id = ''o1'', user_id = ''u1'', order_items = ex_items,
      order_subtotal = 10000, delivery_fee = 10000, discount_code = None,
      order_total = 20000, order_state = ''Lagos'', order_city = ''Ikeja'',
      order_address = ''1 Allen Avenue'', order_phone = None,
      payment_status = Pay_pending, order_status = Ord_pending,
      payment_reference = Some ''ref1''\<rparr>"

definition ex_db :: db where
  "ex_db = \<lparr>products = [ex_product], cart = [ex_cart_row], orders = [ex_order]\<rparr>"

definition ex_metadata :: metadata where
  "ex_metadata = \<lparr>meta_order_id = Some ''o1'', meta_user_id = Some ''u1''\<rparr>"

definition ex_event_data :: "rat \<Rightarrow> event_data" where
  "ex_event_data amount =
     \<lparr>ev_reference = Some ''ref1'', ev_status = Some ''success'',
      ev_amount = Some amount, ev_metadata = Some ex_metadata\<rparr>"

definition ex_event :: "rat \<Rightarrow> event" where
  \<comment> \<open>a \<^verbatim>\<open>charge.success\<close> event for the example order, with the amount in kobo\<close>
  "ex_event amount = \<lparr>ev_event = ''charge.success'', ev_data = Some (ex_event_data amount)\<rparr>"

definition ex_hmac :: "string \<Rightarrow> string \<Rightarrow> string" where
  \<comment> \<open>a stand-in for the keyed hash in the examples\<close>
  "ex_hmac key body = key @ '':'' @ body"

definition ex_parse :: "string \<Rightarrow> event option" where
  "ex_parse body =
     (if body = ''paid-in-full'' then Some (ex_event 2000000)
      else if body = ''paid-one-kobo'' then Some (ex_event 1)
      else None)"

definition ex_body :: "string \<Rightarrow> create_body" where
  "ex_body state =
     \<lparr>body_state = Some state, body_city = Some ''Ikeja'',
      body_address = Some ''1 Allen Avenue'', body_phone = None,
      body_discount_code = None, body_email = Some ''ada@example.com''\<rparr>"

definition ex_gateway_down :: "init_request \<Rightarrow> init_response option" where
  "ex_gateway_down req = None"

definition ex_gateway_up :: "init_request \<Rightarrow> init_response option" where
  \<comment> \<open>a gateway that accepts every request and answers with the reference it was sent\<close>
  "ex_gateway_up req =
     Some \<lparr>authorization_url = ''https://checkout.example/'' @ req_reference req,
           access_code = ''code'', reference = req_reference req\<rparr>"

definition ex_verify_success :: "string \<Rightarrow> verify_result" where
  \<comment> \<open>a gateway that reports every reference as paid\<close>
  "ex_verify_success ref = Verify_ok ''success''"

section \<open>Facts about strings\<close>

lemmas lower_defs = toLowerCase_def toLowerCase_char_def upper_letters_def lower_letters_def

lemmas fee_defs = calculateDeliveryFee_def trim_def is_space_def nearbyStates_def lower_defs

lemma is_space_cases:
  "is_space c \<Longrightarrow>
     c = CHR '' '' \<or> c = CHR 0x09 \<or> c = CHR 0x0A \<or> c = CHR 0x0B \<or> c = CHR 0x0C \<or> c = CHR 0x0D"
  by (simp add: is_space_def)

lemma toLowerCase_space: "is_space c \<Longrightarrow> toLowerCase_char c = c"
  by (drule is_space_cases, elim disjE)
     (simp_all add: toLowerCase_char_def upper_letters_def lower_letters_def)

lemma toLowerCase_spaces: "\<forall>c\<in>set l. is_space c \<Longrightarrow> toLowerCase l = l"
  by (induction l) (simp_all add: toLowerCase_def toLowerCase_space)

lemma toLowerCase_append: "toLowerCase (a @ b) = toLowerCase a @ toLowerCase b"
  by (simp add: toLowerCase_def)

lemma nigerian_state_shape:
  assumes "x \<in> set nigerianStates"
  shows "x \<noteq> [] \<and> \<not> is_space (hd x) \<and> \<not> is_space (last x)"
proof -
  have "x \<in> set (filter (\<lambda>y. y \<noteq> [] \<and> \<not> is_space (hd y) \<and> \<not> is_space (last y)) nigerianStates)"
    using assms by (simp add: nigerianStates_def is_space_def)
  then show ?thesis by simp
qed

lemma dropWhile_padding:
  "\<forall>c\<in>set l. P c \<Longrightarrow> y \<noteq> [] \<Longrightarrow> \<not> P (hd y) \<Longrightarrow> dropWhile P (l @ y) = y"
  by (induction l) (simp_all add: dropWhile_eq_self_iff)

lemma trim_padded:
  assumes "x \<noteq> []" "\<not> is_space (hd x)" "\<not> is_space (last x)"
    and "\<forall>c\<in>set l. is_space c" "\<forall>c\<in>set t. is_space c"
  shows "trim (l @ x @ t) = x"
proof -
  have front: "dropWhile is_space (l @ x @ t) = x @ t"
    using assms by (intro dropWhile_padding) simp_all
  have "dropWhile is_space (rev t @ rev x) = rev x"
    using assms by (intro dropWhile_padding) (simp_all add: hd_rev)
  then show ?thesis by (simp add: trim_def front)
qed

lemma trim_plain:
  assumes "x \<noteq> []" "\<not> is_space (hd x)" "\<not> is_space (last x)"
  shows "trim x = x"
  using trim_padded [OF assms, of "[]" "[]"] by simp

lemma padded_not_state:
  assumes "x \<in> set nigerianStates" "\<forall>c\<in>set l. is_space c" "\<forall>c\<in>set t. is_space c"
    and "l @ t \<noteq> []"
  shows "l @ x @ t \<notin> set nigerianStates"
proof
  assume mem: "l @ x @ t \<in> set nigerianStates"
  have x: "x \<noteq> []" using nigerian_state_shape [OF assms(1)] by simp
  show False
  proof (cases "l = []")
    case False
    then have "is_space (hd (l @ x @ t))" using assms(2) by (cases l) simp_all
    then show False using nigerian_state_shape [OF mem] by simp
  next
    case True
    then have "t \<noteq> []" using assms(4) by simp
    then have "is_space (last (l @ x @ t))" using assms(3) by simp
    then show False using nigerian_state_shape [OF mem] by simp
  qed
qed

lemma floor_rat_divide [simp]: "\<lfloor>numeral a / numeral b :: rat\<rfloor> = numeral a div numeral b"
  by (metis floor_divide_of_int_eq of_int_numeral)

lemma floor_rat_one_divide [simp]: "\<lfloor>1 / numeral b :: rat\<rfloor> = 1 div numeral b"
  by (metis floor_divide_of_int_eq of_int_1 of_int_numeral)

lemma delivery_fee_nonempty:
  "s \<noteq> [] \<Longrightarrow> calculateDeliveryFee (Some s) =
     (if trim (toLowerCase s) = ''lagos'' then 10000
      else if trim (toLowerCase s) \<in> set nearbyStates then 23000 else 27000)"
  by (simp add: calculateDeliveryFee_def Let_def)

section \<open>Facts about double arithmetic\<close>

lemmas fl_eval = fl_def ilog2.simps round_half_even_def Let_def
lemmas js_defs = js_number_def js_add_def js_sub_def js_mul_def js_div_def

lemma ilog2_bounds: "0 < y \<Longrightarrow> 2 powi (ilog2 y) \<le> y \<and> y < 2 powi (ilog2 y + 1)"
proof (induction y rule: ilog2.induct)
  case (1 y)
  show ?case
  proof (cases "2 \<le> y")
    case True
    then have ih: "2 powi (ilog2 (y / 2)) \<le> y / 2 \<and> y / 2 < 2 powi (ilog2 (y / 2) + 1)"
      using 1 by simp
    have e: "ilog2 y = ilog2 (y / 2) + 1" using True by (subst ilog2.simps) simp
    show ?thesis using ih unfolding e by (simp add: power_int_add field_simps)
  next
    case False
    show ?thesis
    proof (cases "y < 1")
      case True
      then have ih: "2 powi (ilog2 (y * 2)) \<le> y * 2 \<and> y * 2 < 2 powi (ilog2 (y * 2) + 1)"
        using 1 False by simp
      have e: "ilog2 y = ilog2 (y * 2) - 1" using True False 1(3) by (subst ilog2.simps) simp
      show ?thesis using ih unfolding e by (simp add: power_int_add power_int_diff field_simps)
    next
      case n: False
      have e: "ilog2 y = 0" using n False 1(3) by (subst ilog2.simps) simp
      show ?thesis using n False unfolding e by simp
    qed
  qed
qed

lemma round_half_even_error: "\<bar>of_int (round_half_even y) - y\<bar> \<le> 1 / 2"
proof -
  have a: "of_int \<lfloor>y\<rfloor> \<le> y" and b: "y < of_int \<lfloor>y\<rfloor> + 1" by linarith+
  consider "y - of_int \<lfloor>y\<rfloor> < 1 / 2" | "1 / 2 < y - of_int \<lfloor>y\<rfloor>" | "y - of_int \<lfloor>y\<rfloor> = 1 / 2"
    by linarith
  then show ?thesis
  proof cases
    case 1
    then have "round_half_even y = \<lfloor>y\<rfloor>" by (simp add: round_half_even_def Let_def)
    then show ?thesis using a 1 by simp
  next
    case 2
    then have "round_half_even y = \<lfloor>y\<rfloor> + 1" by (simp add: round_half_even_def Let_def)
    then show ?thesis using b 2 by simp
  next
    case 3
    then have "round_half_even y = \<lfloor>y\<rfloor> \<or> round_half_even y = \<lfloor>y\<rfloor> + 1"
      by (simp add: round_half_even_def Let_def)
    then show ?thesis using 3 by auto
  qed
qed

lemma fl_error:
  assumes "\<bar>x\<bar> \<le> M" "1 \<le> M"
  shows "\<bar>fl x - x\<bar> \<le> M / 2 ^ 53"
proof (cases "x = 0")
  case True
  then show ?thesis using assms by (simp add: fl_def)
next
  case False
  define e where "e = max (ilog2 \<bar>x\<bar> - 52) (- 1074)"
  define p :: rat where "p = 2 powi e"
  have p: "0 < p" by (simp add: p_def)
  have fl: "fl x = of_int (round_half_even (x / p)) * p"
    using False by (simp add: fl_def e_def p_def Let_def)
  have "fl x - x = (of_int (round_half_even (x / p)) - x / p) * p"
    using p by (simp add: fl field_simps)
  then have "\<bar>fl x - x\<bar> = \<bar>of_int (round_half_even (x / p)) - x / p\<bar> * p"
    using p by (simp add: abs_mult)
  also have "\<dots> \<le> 1 / 2 * p"
    using round_half_even_error [of "x / p"] p by (intro mult_right_mono) simp_all
  finally have err: "\<bar>fl x - x\<bar> \<le> p / 2" by simp
  have "p \<le> M / 2 ^ 52"
  proof (cases "- 1074 \<le> ilog2 \<bar>x\<bar> - 52")
    case True
    then have "e = ilog2 \<bar>x\<bar> - 52" by (simp add: e_def)
    then have "p = 2 powi (ilog2 \<bar>x\<bar>) / 2 powi 52"
      unfolding p_def by (subst power_int_diff [symmetric]) simp_all
    then have "p = 2 powi (ilog2 \<bar>x\<bar>) / 2 ^ 52" by simp
    moreover have "2 powi (ilog2 \<bar>x\<bar>) \<le> \<bar>x\<bar>" using ilog2_bounds [of "\<bar>x\<bar>"] False by simp
    ultimately show ?thesis using assms(1) by (simp add: divide_right_mono)
  next
    case False
    then have "e = - 1074" by (simp add: e_def)
    then have "p = 2 powi (- 1074)" by (simp only: p_def)
    also have "\<dots> \<le> 2 powi (- 52)" by (rule power_int_increasing) simp_all
    also have "\<dots> = 1 / 2 ^ 52" by (simp add: power_int_minus_divide)
    also have "\<dots> \<le> M / 2 ^ 52" using assms(2) by (simp add: divide_right_mono)
    finally show ?thesis .
  qed
  then have "p / 2 \<le> M / 2 ^ 53" by simp
  with err show ?thesis by linarith
qed

lemma fl_zero [simp]: "fl 0 = 0"
  by (simp add: fl_def)

lemma Math_round_near:
  "\<bar>x - of_int k\<bar> < 1 / 2 \<Longrightarrow> Math_round x = k"
  unfolding Math_round_def by linarith

lemma Math_round_bounds:
  "of_int (Math_round x) \<le> x + 1 / 2" "x - 1 / 2 < of_int (Math_round x)"
  unfolding Math_round_def by linarith+

text \<open>Reading a two-decimal amount of k minor units back in minor units gives k.\<close>

lemma fl_within:
  assumes "\<bar>x\<bar> \<le> M" "1 \<le> M" "M / 2 ^ 53 \<le> E"
  shows "\<bar>fl x - x\<bar> \<le> E"
  using fl_error [OF assms(1,2)] assms(3) by linarith

lemma to_kobo_round_trip:
  assumes "\<bar>of_int k :: rat\<bar> \<le> 2 ^ 47"
  shows "to_kobo (js_div (of_int k) 100) = k"
proof -
  define q where "q = fl (of_int k / 100)"
  have k: "\<bar>of_int k :: rat\<bar> \<le> 140737488355328" using assms by simp
  have "\<bar>of_int k / 100 :: rat\<bar> \<le> 2199023255552" using k by linarith
  then have q: "\<bar>q - of_int k / 100\<bar> \<le> 1 / 4096"
    unfolding q_def by (rule fl_within) simp_all
  have "\<bar>q * 100\<bar> \<le> 281474976710656" using q k by linarith
  then have "\<bar>fl (q * 100) - q * 100\<bar> \<le> 1 / 32"
    by (rule fl_within) simp_all
  with q have "\<bar>fl (q * 100) - of_int k\<bar> < 1 / 2" by linarith
  then show ?thesis
    by (simp add: to_kobo_def js_div_def js_mul_def q_def Math_round_near)
qed

lemma kobo_analysis:
  fixes s dsc F :: rat and n :: int
  assumes s: "\<bar>s\<bar> \<le> 2 ^ 36" and d: "\<bar>dsc\<bar> \<le> 2 ^ 36"
    and F: "F = of_int n" "0 \<le> F" "F \<le> 27000"
  shows "\<bar>fl (fl (fl (s + F) - dsc) * 100) - (s * 100 + of_int (100 * n) - dsc * 100)\<bar> \<le> 1 / 32"
    and "\<bar>fl (s * 100) - s * 100\<bar> \<le> 1 / 1024"
    and "\<bar>fl (dsc * 100) - dsc * 100\<bar> \<le> 1 / 1024"
    and "\<bar>fl (fl (fl (s + F) - dsc) * 100)\<bar> \<le> 2 ^ 46"
proof -
  have s': "\<bar>s\<bar> \<le> 68719476736" and d': "\<bar>dsc\<bar> \<le> 68719476736"
    using s d by simp_all
  have "\<bar>s * 100\<bar> \<le> 8796093022208" using s' by linarith
  then show e1: "\<bar>fl (s * 100) - s * 100\<bar> \<le> 1 / 1024"
    by (rule fl_within) simp_all
  have "\<bar>dsc * 100\<bar> \<le> 8796093022208" using d' by linarith
  then show e2: "\<bar>fl (dsc * 100) - dsc * 100\<bar> \<le> 1 / 1024"
    by (rule fl_within) simp_all
  define t1 where "t1 = fl (s + F)"
  define t where "t = fl (t1 - dsc)"
  have "\<bar>s + F\<bar> \<le> 137438953472" using s' F(2,3) by linarith
  then have t1: "\<bar>t1 - (s + F)\<bar> \<le> 1 / 65536"
    unfolding t1_def by (rule fl_within) simp_all
  have "\<bar>t1 - dsc\<bar> \<le> 274877906944" using t1 s' d' F(2,3) by linarith
  then have t: "\<bar>t - (t1 - dsc)\<bar> \<le> 1 / 32768"
    unfolding t_def by (rule fl_within) simp_all
  have "\<bar>t * 100\<bar> \<le> 70368744177664" using t t1 s' d' F(2,3) by linarith
  then have e3: "\<bar>fl (t * 100) - t * 100\<bar> \<le> 1 / 128"
    by (rule fl_within) simp_all
  have Fn: "of_int (100 * n) = F * 100" using F(1) by simp
  show "\<bar>fl (fl (fl (s + F) - dsc) * 100) - (s * 100 + of_int (100 * n) - dsc * 100)\<bar> \<le> 1 / 32"
    unfolding t_def [symmetric] t1_def [symmetric] Fn using e3 t t1 by linarith
  have "\<bar>t * 100\<bar> \<le> 35184372088832" using t t1 s' d' F(2,3) by linarith
  with e3 have "\<bar>fl (t * 100)\<bar> \<le> 70368744177664" by linarith
  then show "\<bar>fl (fl (fl (s + F) - dsc) * 100)\<bar> \<le> 2 ^ 46"
    unfolding t_def [symmetric] t1_def [symmetric] by simp
qed

lemma subtotal_in_range_fold:
  "subtotal_in_range acc items \<Longrightarrow>
   \<bar>foldl (\<lambda>acc i. js_add acc (line_amount i)) acc items\<bar> \<le> amount_limit"
  by (induction items arbitrary: acc) simp_all

lemma raw_subtotal_in_range:
  "amounts_in_range items d \<Longrightarrow> \<bar>raw_subtotal items\<bar> \<le> 2 ^ 36"
  using subtotal_in_range_fold [of 0 items]
  by (simp add: amounts_in_range_def raw_subtotal_def amount_limit_def)

lemma raw_discount_in_range:
  assumes "amounts_in_range items d"
  shows "\<bar>raw_discount items d\<bar> \<le> 2 ^ 36"
proof (cases d)
  case None
  then show ?thesis by (simp add: raw_discount_def)
next
  case (Some dd)
  define x where "x = js_mul (raw_subtotal items) (js_number (percentage dd))"
  have x: "\<bar>x\<bar> \<le> 68719476736"
    using assms Some by (simp add: amounts_in_range_def amount_limit_def x_def)
  then have "\<bar>x / 100\<bar> \<le> 68719476736" by linarith
  then have "\<bar>fl (x / 100) - x / 100\<bar> \<le> 1 / 131072" by (rule fl_within) simp_all
  with x have "\<bar>fl (x / 100)\<bar> \<le> 68719476736" by linarith
  then show ?thesis
    using Some by (simp add: raw_discount_def js_div_def x_def)
qed

lemma delivery_fee_cases:
  "calculateDeliveryFee st \<in> {9000, 10000, 23000, 27000}"
  by (simp add: calculateDeliveryFee_def Let_def split: option.splits)

lemma to_kobo_fee_values:
  "to_kobo 9000 = 900000" "to_kobo 10000 = 1000000" "to_kobo 23000 = 2300000"
  "to_kobo 27000 = 2700000"
  by (simp_all add: to_kobo_def Math_round_def js_mul_def fl_eval)

lemma to_kobo_delivery_fee:
  "\<exists>n. calculateDeliveryFee st = of_int n \<and> to_kobo (calculateDeliveryFee st) = 100 * n
     \<and> 0 \<le> n \<and> n \<le> 27000"
proof -
  consider "calculateDeliveryFee st = 9000" | "calculateDeliveryFee st = 10000"
    | "calculateDeliveryFee st = 23000" | "calculateDeliveryFee st = 27000"
    using delivery_fee_cases [of st] by blast
  then show ?thesis
  proof cases
    case 1
    then show ?thesis by (intro exI [of _ 9000]) (simp add: to_kobo_fee_values)
  next
    case 2
    then show ?thesis by (intro exI [of _ 10000]) (simp add: to_kobo_fee_values)
  next
    case 3
    then show ?thesis by (intro exI [of _ 23000]) (simp add: to_kobo_fee_values)
  next
    case 4
    then show ?thesis by (intro exI [of _ 27000]) (simp add: to_kobo_fee_values)
  qed
qed

lemma round2_kobo:
  assumes "\<bar>js_mul y 100\<bar> \<le> 2 ^ 46"
  shows "to_kobo (round2 y) = Math_round (js_mul y 100)"
proof -
  define x where "x = js_mul y 100"
  have x: "\<bar>x\<bar> \<le> 70368744177664" using assms by (simp add: x_def)
  have "\<bar>of_int (Math_round x) :: rat\<bar> \<le> 140737488355328"
    using Math_round_bounds [of x] x by linarith
  then have "to_kobo (js_div (of_int (Math_round x)) 100) = Math_round x"
    by (intro to_kobo_round_trip) simp
  then show ?thesis by (simp add: round2_def x_def)
qed

lemma round2_zero: "round2 0 = 0"
  by (simp add: round2_def Math_round_def js_defs)

lemma product_bound:
  assumes "\<bar>fl y\<bar> \<le> 68719476736"
  shows "\<bar>y\<bar> \<le> 137438953472"
proof (cases "\<bar>y\<bar> \<le> 1")
  case True
  then show ?thesis by linarith
next
  case False
  then have "\<bar>fl y - y\<bar> \<le> \<bar>y\<bar> / 2 ^ 53" by (intro fl_error) simp_all
  then have "\<bar>fl y - y\<bar> \<le> \<bar>y\<bar> / 9007199254740992" by simp
  with assms show ?thesis by linarith
qed

lemma discount_accuracy:
  fixes s p :: rat
  assumes "\<bar>js_mul s p\<bar> \<le> 2 ^ 36"
  shows "\<bar>round2 (js_div (js_mul s p) 100) - s * p / 100\<bar> \<le> 5001 / 1000000"
proof -
  define y where "y = s * p"
  define x where "x = fl y"
  define dsc where "dsc = fl (x / 100)"
  define z where "z = fl (dsc * 100)"
  define k where "k = Math_round z"
  define D where "D = fl (of_int k / 100)"
  have x: "\<bar>x\<bar> \<le> 68719476736" using assms by (simp add: x_def y_def js_mul_def)
  then have "\<bar>y\<bar> \<le> 137438953472" unfolding x_def by (rule product_bound)
  then have e1: "\<bar>x - y\<bar> \<le> 1 / 65536" unfolding x_def by (rule fl_within) simp_all
  have "\<bar>x / 100\<bar> \<le> 1073741824" using x by linarith
  then have e2: "\<bar>dsc - x / 100\<bar> \<le> 1 / 8388608" unfolding dsc_def by (rule fl_within) simp_all
  have "\<bar>dsc * 100\<bar> \<le> 137438953472" using e2 x by linarith
  then have e3: "\<bar>z - dsc * 100\<bar> \<le> 1 / 65536" unfolding z_def by (rule fl_within) simp_all
  have e4: "of_int k \<le> z + 1 / 2" "z - 1 / 2 < of_int k"
    unfolding k_def by (rule Math_round_bounds)+
  have "\<bar>of_int k / 100 :: rat\<bar> \<le> 2147483648" using e4 e3 e2 x by linarith
  then have e5: "\<bar>D - of_int k / 100\<bar> \<le> 1 / 4194304" unfolding D_def by (rule fl_within) simp_all
  have "\<bar>D - y / 100\<bar> \<le> 5001 / 1000000" using e1 e2 e3 e4 e5 by linarith
  then show ?thesis
    by (simp add: D_def k_def z_def dsc_def x_def y_def round2_def js_mul_def js_div_def)
qed

section \<open>The example amounts\<close>

lemmas subtotal_eval = raw_subtotal_def line_amount_def js_defs fl_eval
lemmas round2_eval = round2_def Math_round_def js_defs fl_eval
lemmas range_eval = amounts_in_range_def amount_limit_def line_amount_def js_defs fl_eval

lemma fee_lagos: "calculateDeliveryFee (Some ''lagos'') = 10000"
  "calculateDeliveryFee (Some ''Lagos'') = 10000"
  by (simp_all add: fee_defs)

lemma ex_items_totals:
  assumes "calculateDeliveryFee st = 10000"
  shows "calculateOrderTotals ex_items st None
    = \<lparr>subtotal = 10000, deliveryFee = 10000, discountAmount = 0, total = 20000\<rparr>"
    and "calculateOrderTotals ex_items st (Some ex_discount)
    = \<lparr>subtotal = 10000, deliveryFee = 10000, discountAmount = 500, total = 19500\<rparr>"
proof -
  have sub: "raw_subtotal ex_items = 10000"
    by (simp add: subtotal_eval ex_items_def)
  have disc: "js_div (js_mul 10000 (js_number 5)) 100 = 500" "js_number 5 \<noteq> 0"
    by (simp_all add: js_defs fl_eval)
  have tot: "js_sub (js_add 10000 10000) 0 = 20000" "js_sub (js_add 10000 10000) 500 = 19500"
    by (simp_all add: js_defs fl_eval)
  have r: "round2 10000 = 10000" "round2 0 = 0" "round2 20000 = 20000" "round2 500 = 500"
    "round2 19500 = 19500"
    by (simp_all add: round2_eval)
  show "calculateOrderTotals ex_items st None
    = \<lparr>subtotal = 10000, deliveryFee = 10000, discountAmount = 0, total = 20000\<rparr>"
    by (simp add: calculateOrderTotals_def Let_def raw_discount_def sub tot r assms)
  show "calculateOrderTotals ex_items st (Some ex_discount)
    = \<lparr>subtotal = 10000, deliveryFee = 10000, discountAmount = 500, total = 19500\<rparr>"
    by (simp add: calculateOrderTotals_def Let_def raw_discount_def ex_discount_def sub disc tot r
        assms)
qed

lemma ex_decimal_subtotal: "raw_subtotal ex_decimal_items = 1320733367284531 / 4398046511104"
  by (simp add: subtotal_eval ex_decimal_items_def)

lemma ex_decimal_totals:
  "calculateOrderTotals ex_decimal_items (Some ''lagos'') (Some ex_discount)
    = \<lparr>subtotal = js_number (3003 / 10), deliveryFee = 10000,
       discountAmount = js_number (1501 / 100), total = js_number (1028529 / 100)\<rparr>"
proof -
  have disc: "js_div (js_mul (1320733367284531 / 4398046511104) (js_number 5)) 100
      = 4226346775310499 / 281474976710656" "js_number 5 \<noteq> 0"
    by (simp_all add: js_defs fl_eval)
  have tot: "js_sub (js_add (1320733367284531 / 4398046511104) 10000)
       (4226346775310499 / 281474976710656) = 2827197613122519 / 274877906944"
    by (simp add: js_defs fl_eval)
  have r: "round2 (1320733367284531 / 4398046511104) = js_number (3003 / 10)"
    "round2 (4226346775310499 / 281474976710656) = js_number (1501 / 100)"
    "round2 (2827197613122519 / 274877906944) = js_number (1028529 / 100)"
    by (simp_all add: round2_eval)
  show ?thesis
    by (simp add: calculateOrderTotals_def Let_def raw_discount_def ex_discount_def
        ex_decimal_subtotal disc tot r fee_lagos)
qed

lemma ex_half_totals:
  "calculateOrderTotals ex_half_items (Some ''lagos'') (Some ex_discount)
    = \<lparr>subtotal = 5 / 2, deliveryFee = 10000,
       discountAmount = js_number (13 / 100), total = js_number (1000238 / 100)\<rparr>"
proof -
  have sub: "raw_subtotal ex_half_items = 5 / 2"
    by (simp add: subtotal_eval ex_half_items_def)
  have disc: "js_div (js_mul (5 / 2) (js_number 5)) 100 = 1 / 8" "js_number 5 \<noteq> 0"
    by (simp_all add: js_defs fl_eval)
  have tot: "js_sub (js_add (5 / 2) 10000) (1 / 8) = 80019 / 8"
    by (simp add: js_defs fl_eval)
  have r: "round2 (5 / 2) = 5 / 2" "round2 (1 / 8) = js_number (13 / 100)"
    "round2 (80019 / 8) = js_number (1000238 / 100)"
    by (simp_all add: round2_eval)
  show ?thesis
    by (simp add: calculateOrderTotals_def Let_def raw_discount_def ex_discount_def
        sub disc tot r fee_lagos)
qed

lemma ex_kobo:
  "to_kobo 10000 = 1000000" "to_kobo 20000 = 2000000" "to_kobo 0 = 0" "to_kobo (5 / 2) = 250"
  "to_kobo (js_number (3003 / 10)) = 30030" "to_kobo (js_number (1501 / 100)) = 1501"
  "to_kobo (js_number (1028529 / 100)) = 1028529" "to_kobo (js_number (13 / 100)) = 13"
  "to_kobo (js_number (1000238 / 100)) = 1000238"
  by (simp_all add: to_kobo_def Math_round_def js_defs fl_eval)

lemma ex_ranges:
  "amounts_in_range ex_items None" "amounts_in_range ex_items (Some ex_discount)"
  "amounts_in_range ex_decimal_items (Some ex_discount)"
  "amounts_in_range ex_half_items (Some ex_discount)"
  by (simp_all add: range_eval raw_subtotal_def ex_items_def ex_decimal_items_def
      ex_half_items_def ex_discount_def)

section \<open>The pricing engine: totals, tiers, discount\<close>

text \<open>
  C4 (amended). For amounts in range, each output of \<open>calculateOrderTotals\<close> is rounded to
  two decimals on its own, from the unrounded double. Counted in minor units, the total
  differs from \<open>subtotal + deliveryFee - discountAmount\<close> by at most one unit. The two
  agree when no discount is supplied and the unrounded subtotal lies within a quarter of a
  minor unit of a whole number \<open>k\<close> of minor units; the subtotal is then \<open>k\<close> minor units
  and the discount amount is zero. Order creation calls the function with no discount.
\<close>

theorem totals_identity_up_to_rounding:
  assumes "amounts_in_range items d"
  shows "subtotal (calculateOrderTotals items state d) = round2 (raw_subtotal items)
   \<and> discountAmount (calculateOrderTotals items state d) = round2 (raw_discount items d)
   \<and> deliveryFee (calculateOrderTotals items state d) = calculateDeliveryFee state
   \<and> total (calculateOrderTotals items state d)
       = round2 (js_sub (js_add (raw_subtotal items) (calculateDeliveryFee state))
                   (raw_discount items d))
   \<and> \<bar>to_kobo (total (calculateOrderTotals items state d))
        - (to_kobo (subtotal (calculateOrderTotals items state d))
           + to_kobo (deliveryFee (calculateOrderTotals items state d))
           - to_kobo (discountAmount (calculateOrderTotals items state d)))\<bar> \<le> 1
   \<and> (d = None \<and> \<bar>raw_subtotal items * 100 - of_int k\<bar> \<le> 1 / 4 \<longrightarrow>
        to_kobo (subtotal (calculateOrderTotals items state d)) = k
        \<and> to_kobo (discountAmount (calculateOrderTotals items state d)) = 0
        \<and> to_kobo (total (calculateOrderTotals items state d))
            = to_kobo (subtotal (calculateOrderTotals items state d))
              + to_kobo (deliveryFee (calculateOrderTotals items state d)))"
proof -
  define T where "T = calculateOrderTotals items state d"
  define s where "s = raw_subtotal items"
  define dsc where "dsc = raw_discount items d"
  define F where "F = calculateDeliveryFee state"
  obtain n where n: "F = of_int n" "to_kobo F = 100 * n" "0 \<le> n" "n \<le> 27000"
    using to_kobo_delivery_fee [of state] unfolding F_def by blast
  have s: "\<bar>s\<bar> \<le> 2 ^ 36" unfolding s_def using assms by (rule raw_subtotal_in_range)
  have dsc: "\<bar>dsc\<bar> \<le> 2 ^ 36" unfolding dsc_def using assms by (rule raw_discount_in_range)
  have F: "0 \<le> F" "F \<le> 27000" using n by simp_all
  note an = kobo_analysis [OF s dsc n(1) F]
  define xS where "xS = fl (s * 100)"
  define xD where "xD = fl (dsc * 100)"
  define xT where "xT = fl (fl (fl (s + F) - dsc) * 100)"
  have fields: "subtotal T = round2 s" "discountAmount T = round2 dsc" "deliveryFee T = F"
    "total T = round2 (js_sub (js_add s F) dsc)"
    by (simp_all add: T_def calculateOrderTotals_def Let_def s_def dsc_def F_def)
  have s': "\<bar>s\<bar> \<le> 68719476736" and d': "\<bar>dsc\<bar> \<le> 68719476736" using s dsc by simp_all
  have "\<bar>xS\<bar> \<le> 70368744177664" using an(2) s' unfolding xS_def by linarith
  then have bS: "\<bar>xS\<bar> \<le> 2 ^ 46" by simp
  have "\<bar>xD\<bar> \<le> 70368744177664" using an(3) d' unfolding xD_def by linarith
  then have bD: "\<bar>xD\<bar> \<le> 2 ^ 46" by simp
  have bT: "\<bar>xT\<bar> \<le> 2 ^ 46" using an(4) unfolding xT_def .
  have kS: "to_kobo (subtotal T) = Math_round xS"
    unfolding fields using round2_kobo [of s] bS by (simp add: xS_def js_mul_def)
  have kD: "to_kobo (discountAmount T) = Math_round xD"
    unfolding fields using round2_kobo [of dsc] bD by (simp add: xD_def js_mul_def)
  have kT: "to_kobo (total T) = Math_round xT"
    unfolding fields using round2_kobo [of "js_sub (js_add s F) dsc"] bT
    by (simp add: xT_def js_mul_def js_sub_def js_add_def)
  have kF: "to_kobo (deliveryFee T) = 100 * n" unfolding fields using n(2) .
  have near: "\<bar>xT - (s * 100 + of_int (100 * n) - dsc * 100)\<bar> \<le> 1 / 32"
    "\<bar>xS - s * 100\<bar> \<le> 1 / 1024" "\<bar>xD - dsc * 100\<bar> \<le> 1 / 1024"
    using an(1-3) unfolding xS_def xD_def xT_def by simp_all
  have "\<bar>of_int (Math_round xT) - (of_int (Math_round xS) + of_int (100 * n)
            - of_int (Math_round xD) :: rat)\<bar> < 2"
    using near Math_round_bounds [of xT] Math_round_bounds [of xS] Math_round_bounds [of xD]
    by linarith
  then have "\<bar>of_int (Math_round xT - (Math_round xS + 100 * n - Math_round xD)) :: rat\<bar> < 2"
    by simp
  then have "\<bar>Math_round xT - (Math_round xS + 100 * n - Math_round xD)\<bar> < 2"
    by (metis of_int_abs of_int_less_iff of_int_numeral)
  then have close: "\<bar>to_kobo (total T) - (to_kobo (subtotal T) + to_kobo (deliveryFee T)
      - to_kobo (discountAmount T))\<bar> \<le> 1"
    unfolding kS kD kT kF by linarith
  have exact: "to_kobo (subtotal T) = k \<and> to_kobo (discountAmount T) = 0
      \<and> to_kobo (total T) = to_kobo (subtotal T) + to_kobo (deliveryFee T)"
    if "d = None" "\<bar>raw_subtotal items * 100 - of_int k\<bar> \<le> 1 / 4"
  proof -
    have z: "dsc = 0" using that(1) by (simp add: dsc_def raw_discount_def)
    have q: "\<bar>s * 100 - of_int k\<bar> \<le> 1 / 4" using that(2) by (simp add: s_def)
    have "xD = 0" by (simp add: xD_def z)
    then have 1: "Math_round xD = 0" by (simp add: Math_round_def)
    have "\<bar>xS - of_int k\<bar> < 1 / 2" using near(2) q by linarith
    then have 2: "Math_round xS = k" by (rule Math_round_near)
    have "of_int (k + 100 * n) = (of_int k :: rat) + of_int (100 * n)" by simp
    then have "\<bar>xT - of_int (k + 100 * n)\<bar> < 1 / 2" using near(1) q z by linarith
    then have 3: "Math_round xT = k + 100 * n" by (rule Math_round_near)
    show ?thesis unfolding kS kD kT kF using 1 2 3 by simp
  qed
  show ?thesis
    using fields close exact unfolding T_def s_def dsc_def F_def by simp
qed

text \<open>
  The spec's scenario: two units at 5000 delivered to Lagos cost 10000 + 10000 = 20000.
\<close>

theorem totals_identity_up_to_rounding_witness:
  "amounts_in_range ex_items None
   \<and> \<bar>raw_subtotal ex_items * 100 - of_int 1000000\<bar> \<le> 1 / 4
   \<and> calculateOrderTotals ex_items (Some ''lagos'') None
       = \<lparr>subtotal = 10000, deliveryFee = 10000, discountAmount = 0, total = 20000\<rparr>
   \<and> to_kobo (subtotal (calculateOrderTotals ex_items (Some ''lagos'') None)) = 1000000
   \<and> to_kobo (discountAmount (calculateOrderTotals ex_items (Some ''lagos'') None)) = 0
   \<and> to_kobo (total (calculateOrderTotals ex_items (Some ''lagos'') None))
       = to_kobo (subtotal (calculateOrderTotals ex_items (Some ''lagos'') None))
         + to_kobo (deliveryFee (calculateOrderTotals ex_items (Some ''lagos'') None))"
proof -
  have sub: "raw_subtotal ex_items = 10000"
    by (simp add: subtotal_eval ex_items_def)
  have near: "(None :: discount option) = None
      \<and> \<bar>raw_subtotal ex_items * 100 - of_int 1000000\<bar> \<le> 1 / 4"
    by (simp add: sub)
  show ?thesis
    using totals_identity_up_to_rounding
      [OF ex_ranges(1), where state = "Some ''lagos''" and k = 1000000] near
    by (simp add: ex_ranges(1) ex_items_totals(1) [OF fee_lagos(1)] ex_kobo)
qed

text \<open>
  One unit at 2.50 with a 5 percent discount: the unrounded discount is 0.125, which
  rounds up to 0.13, while the unrounded total 10002.375 rounds up to 10002.38; the
  rounded fields give 2.50 + 10000 - 0.13 = 10002.37, in minor units as well as when
  the sum and the difference are taken in doubles.
\<close>

theorem totals_identity_counterexample:
  "amounts_in_range ex_half_items (Some ex_discount)
   \<and> to_kobo (total (calculateOrderTotals ex_half_items (Some ''lagos'') (Some ex_discount)))
       = 1000238
   \<and> to_kobo (subtotal (calculateOrderTotals ex_half_items (Some ''lagos'') (Some ex_discount)))
       + to_kobo (deliveryFee (calculateOrderTotals ex_half_items (Some ''lagos'') (Some ex_discount)))
       - to_kobo (discountAmount (calculateOrderTotals ex_half_items (Some ''lagos'') (Some ex_discount)))
       = 1000237
   \<and> total (calculateOrderTotals ex_half_items (Some ''lagos'') (Some ex_discount))
     \<noteq> js_sub (js_add (subtotal (calculateOrderTotals ex_half_items (Some ''lagos'') (Some ex_discount)))
                 (deliveryFee (calculateOrderTotals ex_half_items (Some ''lagos'') (Some ex_discount))))
         (discountAmount (calculateOrderTotals ex_half_items (Some ''lagos'') (Some ex_discount)))"
proof -
  let ?t = "calculateOrderTotals ex_half_items (Some ''lagos'') (Some ex_discount)"
  have f: "subtotal ?t = 5 / 2" "deliveryFee ?t = 10000"
    "discountAmount ?t = js_number (13 / 100)" "total ?t = js_number (1000238 / 100)"
    by (simp_all only: ex_half_totals totals.select_convs)
  have k: "to_kobo (total ?t) = 1000238"
    by (simp only: f ex_kobo)
  have s: "to_kobo (subtotal ?t) + to_kobo (deliveryFee ?t) - to_kobo (discountAmount ?t) = 1000237"
    by (simp add: f(1-3) ex_kobo)
  have rhs: "to_kobo (js_sub (js_add (5 / 2) 10000) (js_number (13 / 100))) = 1000237"
    by (simp add: to_kobo_def Math_round_def js_defs fl_eval)
  have ne: "total ?t \<noteq> js_sub (js_add (subtotal ?t) (deliveryFee ?t)) (discountAmount ?t)"
    unfolding f using rhs ex_kobo(9) by auto
  show ?thesis
    using ex_ranges(4) k s ne by (intro conjI)
qed

text \<open>
  C5 (amended). \<open>calculateDeliveryFee\<close> is a total lookup on the lower-cased, trimmed
  region name. An absent or empty region gets the default 9000, which differs from the
  three tier fees. A non-empty region gets 10000 when it normalises to the metro region,
  23000 when it normalises to one of the six nearby regions, and 27000 in every other
  case: for each other recognized region and equally for a region that is not recognized.
\<close>

theorem calculateDeliveryFee_tiers:
  "calculateDeliveryFee None = 9000 \<and> calculateDeliveryFee (Some []) = 9000
   \<and> (s \<noteq> [] \<longrightarrow> calculateDeliveryFee (Some s) =
         (if trim (toLowerCase s) = ''lagos'' then 10000
          else if trim (toLowerCase s) \<in> set nearbyStates then 23000 else 27000))
   \<and> (validateNigerianState s \<and> toLowerCase s \<noteq> ''lagos'' \<and> toLowerCase s \<notin> set nearbyStates
         \<longrightarrow> calculateDeliveryFee (Some s) = 27000)
   \<and> (s \<noteq> [] \<and> trim (toLowerCase s) \<notin> set nigerianStates
         \<longrightarrow> calculateDeliveryFee (Some s) = 27000)
   \<and> (s \<noteq> [] \<and> u \<noteq> [] \<and> trim (toLowerCase s) = trim (toLowerCase u)
         \<longrightarrow> calculateDeliveryFee (Some s) = calculateDeliveryFee (Some u))
   \<and> (9000::rat) \<notin> {10000, 23000, 27000}"
proof -
  have a: "calculateDeliveryFee None = 9000 \<and> calculateDeliveryFee (Some []) = 9000"
    by (simp add: calculateDeliveryFee_def)
  have c: "calculateDeliveryFee (Some s) = 27000"
    if "validateNigerianState s" "toLowerCase s \<noteq> ''lagos''" "toLowerCase s \<notin> set nearbyStates"
  proof -
    have mem: "toLowerCase s \<in> set nigerianStates"
      using that(1) by (simp add: validateNigerianState_def)
    have "trim (toLowerCase s) = toLowerCase s"
      using nigerian_state_shape [OF mem] by (simp add: trim_plain)
    moreover have "s \<noteq> []"
      using nigerian_state_shape [OF mem] by (auto simp: toLowerCase_def)
    ultimately show ?thesis using that by (simp add: delivery_fee_nonempty)
  qed
  have d: "calculateDeliveryFee (Some s) = 27000"
    if "s \<noteq> []" "trim (toLowerCase s) \<notin> set nigerianStates"
  proof -
    have "''lagos'' \<in> set nigerianStates" "set nearbyStates \<subseteq> set nigerianStates"
      by (simp_all add: nigerianStates_def nearbyStates_def)
    then show ?thesis using that by (auto simp: delivery_fee_nonempty)
  qed
  have e: "calculateDeliveryFee (Some s) = calculateDeliveryFee (Some u)"
    if "s \<noteq> []" "u \<noteq> []" "trim (toLowerCase s) = trim (toLowerCase u)"
    using that by (simp add: delivery_fee_nonempty)
  show ?thesis using a c d e by (simp add: delivery_fee_nonempty)
qed

theorem calculateDeliveryFee_tiers_witness:
  "calculateDeliveryFee (Some ''  Lagos  '') = 10000
   \<and> calculateDeliveryFee (Some ''  Lagos  '') = calculateDeliveryFee (Some ''lagos'')
   \<and> calculateDeliveryFee (Some ''ogun'') = 23000
   \<and> validateNigerianState ''Kano'' \<and> calculateDeliveryFee (Some ''Kano'') = 27000
   \<and> trim (toLowerCase ''unknown-state'') \<notin> set nigerianStates
   \<and> calculateDeliveryFee (Some ''unknown-state'') = 27000"
  using calculateDeliveryFee_tiers [where s = "''  Lagos  ''" and u = "''lagos''"]
    calculateDeliveryFee_tiers [where s = "''ogun''" and u = "''ogun''"]
    calculateDeliveryFee_tiers [where s = "''Kano''" and u = "''Kano''"]
    calculateDeliveryFee_tiers [where s = "''unknown-state''" and u = "''unknown-state''"]
  by (simp add: validateNigerianState_def nigerianStates_def trim_def is_space_def
      nearbyStates_def lower_defs)

text \<open>
  A region that is not recognized is charged the fee of the recognized far regions, not
  a fee of its own.
\<close>

theorem unrecognized_region_counterexample:
  "\<not> validateNigerianState ''unknown-state''
   \<and> validateNigerianState ''kano''
   \<and> calculateDeliveryFee (Some ''unknown-state'') = calculateDeliveryFee (Some ''kano'')"
  by (simp add: validateNigerianState_def nigerianStates_def fee_defs)

text \<open>
  C6 (amended). For amounts in range, the discount amount is zero when no discount record
  is supplied or its percentage is zero; otherwise it is the double product of the
  unrounded subtotal and the percentage, divided by 100 and rounded to two decimals, and
  it lies within 0.005001 of the exact quotient of that product by 100. The validity date
  of the record has no influence: an expired discount is applied like a valid one.
\<close>

theorem discount_amount_ignores_validity:
  assumes "amounts_in_range items d"
  shows "discountAmount (calculateOrderTotals items state d) =
     (case d of
        None \<Rightarrow> 0
      | Some dd \<Rightarrow>
          if js_number (percentage dd) = 0 then 0
          else round2 (js_div (js_mul (raw_subtotal items) (js_number (percentage dd))) 100))
   \<and> (case d of
         None \<Rightarrow> True
       | Some dd \<Rightarrow>
           \<bar>discountAmount (calculateOrderTotals items state d)
             - raw_subtotal items * js_number (percentage dd) / 100\<bar> \<le> 5001 / 1000000)
   \<and> calculateOrderTotals items state (Some (dx\<lparr>valid_until := v\<rparr>))
       = calculateOrderTotals items state (Some dx)"
proof -
  have amount: "discountAmount (calculateOrderTotals items state d) =
     (case d of
        None \<Rightarrow> 0
      | Some dd \<Rightarrow>
          if js_number (percentage dd) = 0 then 0
          else round2 (js_div (js_mul (raw_subtotal items) (js_number (percentage dd))) 100))"
    by (simp add: calculateOrderTotals_def Let_def raw_discount_def round2_zero
        split: option.splits)
  have close: "\<bar>discountAmount (calculateOrderTotals items state d)
             - raw_subtotal items * js_number (percentage dd) / 100\<bar> \<le> 5001 / 1000000"
    if d: "d = Some dd" for dd
  proof (cases "js_number (percentage dd) = 0")
    case True
    then show ?thesis using amount unfolding d by simp
  next
    case False
    have "\<bar>js_mul (raw_subtotal items) (js_number (percentage dd))\<bar> \<le> 2 ^ 36"
      using assms d by (simp add: amounts_in_range_def amount_limit_def)
    then show ?thesis
      using discount_accuracy [of "raw_subtotal items" "js_number (percentage dd)"] False amount
      unfolding d by simp
  qed
  have same: "calculateOrderTotals items state (Some (dx\<lparr>valid_until := v\<rparr>))
       = calculateOrderTotals items state (Some dx)"
    by (simp add: calculateOrderTotals_def Let_def raw_discount_def)
  show ?thesis using amount close same by (simp split: option.splits)
qed

text \<open>
  Three units at 100.10 with 5 percent: the double subtotal lies just below 300.30 and the
  discount amount is 15.01, where the decimal product 15.015 would round up to 15.02.
\<close>

theorem discount_amount_ignores_validity_witness:
  "amounts_in_range ex_decimal_items (Some ex_discount)
   \<and> discountAmount (calculateOrderTotals ex_decimal_items (Some ''lagos'') (Some ex_discount))
       = js_number (1501 / 100)
   \<and> to_kobo (discountAmount (calculateOrderTotals ex_decimal_items (Some ''lagos'') (Some ex_discount)))
       = 1501
   \<and> calculateOrderTotals ex_decimal_items (Some ''lagos'') (Some (ex_discount\<lparr>valid_until := 0\<rparr>))
       = calculateOrderTotals ex_decimal_items (Some ''lagos'') (Some ex_discount)"
proof -
  let ?t = "calculateOrderTotals ex_decimal_items (Some ''lagos'') (Some ex_discount)"
  have a: "discountAmount ?t = js_number (1501 / 100)"
    by (simp only: ex_decimal_totals totals.select_convs)
  have k: "to_kobo (discountAmount ?t) = 1501"
    by (simp only: a ex_kobo)
  have v: "calculateOrderTotals ex_decimal_items (Some ''lagos'') (Some (ex_discount\<lparr>valid_until := 0\<rparr>))
       = ?t"
    using discount_amount_ignores_validity
      [OF ex_ranges(3), where state = "Some ''lagos''" and dx = ex_discount and v = 0]
    by blast
  show ?thesis
    using ex_ranges(3) a k v by (intro conjI)
qed

text \<open>
  The discount of the example is valid until day 5. On day 6 the spec's rule gives no
  discount; the code still takes 5 percent of 10000.
\<close>

theorem expired_discount_counterexample:
  "spec_expired ex_discount 6
   \<and> spec_discount_amount ex_items (Some ex_discount) 6 = 0
   \<and> discountAmount (calculateOrderTotals ex_items (Some ''lagos'') (Some ex_discount)) = 500"
proof -
  have "discountAmount (calculateOrderTotals ex_items (Some ''lagos'') (Some ex_discount)) = 500"
    by (simp only: ex_items_totals(2) [OF fee_lagos(1)] totals.select_convs)
  moreover have "spec_expired ex_discount 6"
    "spec_discount_amount ex_items (Some ex_discount) 6 = 0"
    by (simp_all add: spec_discount_amount_def spec_expired_def ex_discount_def)
  ultimately show ?thesis by (intro conjI)
qed

section \<open>Region validation at order creation\<close>

text \<open>
  C9. Order creation rejects a region that differs from a recognized region only by
  leading or trailing white space with the invalid-state error and leaves the database
  unchanged: \<open>validateNigerianState\<close> lower-cases without trimming. The delivery-fee
  function trims, and charges the padded string like the recognized region.
\<close>

theorem create_order_rejects_padded_region:
  assumes r: "validateNigerianState r"
    and pad: "\<forall>c\<in>set l. is_space c" "\<forall>c\<in>set t. is_space c" "l @ t \<noteq> []"
    and body: "body_state body = Some (l @ r @ t)"
      "body_city body = Some city" "city \<noteq> []"
      "body_address body = Some address" "address \<noteq> []"
      "body_email body = Some email" "email \<noteq> []"
  shows "\<not> validateNigerianState (l @ r @ t)
    \<and> create_order paystack_initialize new_id now uid body st
        = (Err 400 ''Invalid Nigerian state'', st)
    \<and> calculateDeliveryFee (Some (l @ r @ t)) = calculateDeliveryFee (Some r)"
proof -
  have mem: "toLowerCase r \<in> set nigerianStates"
    using r by (simp add: validateNigerianState_def)
  have lower: "toLowerCase (l @ r @ t) = l @ toLowerCase r @ t"
    using pad by (simp add: toLowerCase_append toLowerCase_spaces)
  have invalid: "\<not> validateNigerianState (l @ r @ t)"
    using padded_not_state [OF mem pad] by (simp add: validateNigerianState_def lower)
  have shape: "toLowerCase r \<noteq> []" "\<not> is_space (hd (toLowerCase r))"
    "\<not> is_space (last (toLowerCase r))"
    using nigerian_state_shape [OF mem] by simp_all
  have rne: "r \<noteq> []" using shape(1) by (auto simp: toLowerCase_def)
  have "trim (toLowerCase (l @ r @ t)) = toLowerCase r"
    unfolding lower using shape pad by (intro trim_padded) simp_all
  moreover have "trim (toLowerCase r) = toLowerCase r"
    using shape by (intro trim_plain) simp_all
  ultimately have fee: "calculateDeliveryFee (Some (l @ r @ t)) = calculateDeliveryFee (Some r)"
    using rne by (simp add: delivery_fee_nonempty)
  have "create_order paystack_initialize new_id now uid body st
          = (Err 400 ''Invalid Nigerian state'', st)"
    using body invalid rne by (simp add: create_order_def)
  then show ?thesis using invalid fee by simp
qed

theorem create_order_rejects_padded_region_witness:
  "validateNigerianState ''lagos''
   \<and> \<not> validateNigerianState ''  lagos  ''
   \<and> create_order ex_gateway_up ''o2'' 1700000000000 ''u1'' (ex_body ''  lagos  '') ex_db
       = (Err 400 ''Invalid Nigerian state'', ex_db)
   \<and> calculateDeliveryFee (Some ''  lagos  '') = 10000
   \<and> calculateDeliveryFee (Some ''lagos'') = 10000"
proof -
  have r: "validateNigerianState ''lagos''"
    by (simp add: validateNigerianState_def nigerianStates_def lower_defs)
  have pad: "\<forall>c\<in>set ''  ''. is_space c" "''  '' @ ''  '' \<noteq> []"
    by (simp_all add: is_space_def)
  have fee: "calculateDeliveryFee (Some ''lagos'') = 10000"
    by (simp add: fee_defs)
  show ?thesis
    using create_order_rejects_padded_region
      [OF r pad(1) pad(1) pad(2), where body = "ex_body ''  lagos  ''" and city = "''Ikeja''"
         and address = "''1 Allen Avenue''" and email = "''ada@example.com''"
         and paystack_initialize = ex_gateway_up and new_id = "''o2''"
         and now = 1700000000000 and uid = "''u1''" and st = ex_db]
      r fee
    by (simp add: ex_body_def)
qed

section \<open>Facts about the tables\<close>

lemmas ex_defs = ex_db_def ex_order_def ex_product_def ex_cart_row_def ex_items_def
  ex_event_def ex_event_data_def ex_metadata_def ex_hmac_def ex_parse_def

lemmas db_defs = order_by_id_def product_by_id_def single_def update_order_def clear_cart_def
  decrement_stock_def set_reference_def

lemma find_upsert_same:
  "find (\<lambda>c. cart_user_id c = cart_user_id row \<and> cart_product_id c = cart_product_id row)
     (upsert_cart row cs) = Some row"
  by (induction cs) auto

lemma find_upsert_other:
  "(u, p) \<noteq> (cart_user_id row, cart_product_id row) \<Longrightarrow>
   find (\<lambda>c. cart_user_id c = u \<and> cart_product_id c = p) (upsert_cart row cs)
     = find (\<lambda>c. cart_user_id c = u \<and> cart_product_id c = p) cs"
  by (induction cs) auto

lemma decrement_all_frame:
  "orders (foldl (\<lambda>s i. decrement_stock (product_id i) (quantity i) s) st its) = orders st"
  "cart (foldl (\<lambda>s i. decrement_stock (product_id i) (quantity i) s) st its) = cart st"
  by (induction its arbitrary: st) (simp_all add: decrement_stock_def)

lemma decrement_all_products:
  "products st = products st' \<Longrightarrow>
   products (foldl (\<lambda>s i. decrement_stock (product_id i) (quantity i) s) st its)
     = products (foldl (\<lambda>s i. decrement_stock (product_id i) (quantity i) s) st' its)"
  by (induction its arbitrary: st st') (simp_all add: decrement_stock_def)

lemma filter_update_order:
  assumes "\<And>r. order_id (f r) = order_id r"
  shows "filter (\<lambda>r. order_id r = oid) (map (\<lambda>r. if order_id r = oid then f r else r) xs)
     = map f (filter (\<lambda>r. order_id r = oid) xs)"
  using assms by (induction xs) auto

lemma order_by_id_update_order:
  assumes "\<And>r. order_id (f r) = order_id r" "order_by_id oid st = Some ord"
  shows "order_by_id oid (update_order oid f st) = Some (f ord)"
proof -
  from assms(2) have "filter (\<lambda>r. order_id r = oid) (orders st) = [ord]"
    by (auto simp: order_by_id_def single_def split: list.splits)
  then show ?thesis
    using filter_update_order [of f oid "orders st", OF assms(1)]
    by (simp add: order_by_id_def update_order_def single_def)
qed

lemma order_by_id_clear_cart [simp]:
  "order_by_id oid (clear_cart uid st) = order_by_id oid st"
  by (simp add: order_by_id_def clear_cart_def)

lemma order_id_set_reference [simp]: "order_id (set_reference r ord) = order_id ord"
  by (simp add: set_reference_def split: option.splits)

lemma order_by_id_id:
  assumes "order_by_id oid st = Some ord"
  shows "order_id ord = oid"
proof -
  from assms have "filter (\<lambda>r. order_id r = oid) (orders st) = [ord]"
    by (auto simp: order_by_id_def single_def split: list.splits)
  then have "ord \<in> set (filter (\<lambda>r. order_id r = oid) (orders st))"
    by simp
  then show ?thesis by simp
qed

lemma handle_event_amount:
  "handle_event rpc (ev\<lparr>ev_data := Some (d\<lparr>ev_amount := a\<rparr>)\<rparr>) st
     = handle_event rpc (ev\<lparr>ev_data := Some d\<rparr>) st"
  by (simp add: handle_event_def charge_success_def charge_failed_def
      split: option.splits)

lemma charge_success_found:
  assumes "order_by_id oid st = Some ord"
  shows "charge_success rpc d oid uid st =
     (Processed oid,
      foldl (\<lambda>s i. rpc (product_id i) (quantity i) s)
        (clear_cart uid
           (update_order oid
              (\<lambda>r. set_reference (ev_reference d)
                     (r\<lparr>payment_status := Pay_success, order_status := Ord_processing\<rparr>)) st))
        (order_items ord))"
proof -
  let ?f = "\<lambda>r. set_reference (ev_reference d)
                     (r\<lparr>payment_status := Pay_success, order_status := Ord_processing\<rparr>)"
  have "order_by_id oid (update_order oid ?f st) = Some (?f ord)"
    using assms by (intro order_by_id_update_order) simp_all
  moreover have "order_id (?f ord) = oid"
    using order_by_id_id [OF assms] by simp
  ultimately show ?thesis using assms by (simp add: charge_success_def Let_def)
qed

section \<open>Add to cart\<close>

text \<open>
  C10. Adding a product that exists to the cart stores the supplied quantity on the line
  of that user and product, whatever quantity the line held before (an upsert on user
  and product, not an increment); the stock check compares the stock with the supplied
  quantity alone. Every other line, the products and the orders are left as they were.
  Without a quantity the request adds 1.
\<close>

theorem cart_add_replaces_quantity:
  assumes "pid \<noteq> []" "product_by_id pid st = Some p"
  shows "cart_add uid (Some pid) (Some q) st =
      (if stock p < q then (Err 400 ''Insufficient stock'', st)
       else (Ok_cart \<lparr>cart_user_id = uid, cart_product_id = pid, cart_quantity = q\<rparr>,
             st\<lparr>cart := upsert_cart
                           \<lparr>cart_user_id = uid, cart_product_id = pid, cart_quantity = q\<rparr>
                           (cart st)\<rparr>))
    \<and> (\<not> stock p < q \<longrightarrow>
         cart_quantity_of uid pid (snd (cart_add uid (Some pid) (Some q) st)) = Some q
       \<and> (\<forall>u' p'. (u', p') \<noteq> (uid, pid) \<longrightarrow>
            cart_quantity_of u' p' (snd (cart_add uid (Some pid) (Some q) st))
              = cart_quantity_of u' p' st)
       \<and> products (snd (cart_add uid (Some pid) (Some q) st)) = products st
       \<and> orders (snd (cart_add uid (Some pid) (Some q) st)) = orders st)
    \<and> cart_add uid (Some pid) None st = cart_add uid (Some pid) (Some 1) st"
proof -
  let ?row = "\<lparr>cart_user_id = uid, cart_product_id = pid, cart_quantity = q\<rparr>"
  have f: "find (\<lambda>c. cart_user_id c = uid \<and> cart_product_id c = pid)
             (upsert_cart ?row (cart st)) = Some ?row"
    using find_upsert_same [of ?row "cart st"] by simp
  have eq: "cart_add uid (Some pid) (Some q) st =
      (if stock p < q then (Err 400 ''Insufficient stock'', st)
       else (Ok_cart ?row, st\<lparr>cart := upsert_cart ?row (cart st)\<rparr>))"
    using assms f by (simp add: cart_add_def Let_def)
  have other: "cart_quantity_of u' p' (st\<lparr>cart := upsert_cart ?row (cart st)\<rparr>)
                 = cart_quantity_of u' p' st"
    if "(u', p') \<noteq> (uid, pid)" for u' p'
    using find_upsert_other [of u' p' ?row "cart st"] that by (simp add: cart_quantity_of_def)
  have dflt: "cart_add uid (Some pid) None st = cart_add uid (Some pid) (Some 1) st"
    by (simp add: cart_add_def)
  show ?thesis
    unfolding eq using f other dflt by (simp add: cart_quantity_of_def)
qed

text \<open>
  The example cart holds 2 units of a product with 10 in stock. Adding 9 is accepted
  (2 + 9 would exceed the stock) and leaves 9 on the line, not 11.
\<close>

theorem cart_add_replaces_quantity_witness:
  "cart_quantity_of ''u1'' ''p1'' ex_db = Some 2
   \<and> product_by_id ''p1'' ex_db = Some ex_product \<and> stock ex_product = 10
   \<and> fst (cart_add ''u1'' (Some ''p1'') (Some 9) ex_db)
       = Ok_cart \<lparr>cart_user_id = ''u1'', cart_product_id = ''p1'', cart_quantity = 9\<rparr>
   \<and> cart_quantity_of ''u1'' ''p1'' (snd (cart_add ''u1'' (Some ''p1'') (Some 9) ex_db)) = Some 9
   \<and> cart (snd (cart_add ''u1'' (Some ''p1'') (Some 9) ex_db))
       = [\<lparr>cart_user_id = ''u1'', cart_product_id = ''p1'', cart_quantity = 9\<rparr>]"
proof -
  have p: "product_by_id ''p1'' ex_db = Some ex_product"
    by (simp add: ex_defs db_defs)
  have ne: "''p1'' \<noteq> []" by simp
  show ?thesis
    using cart_add_replaces_quantity [OF ne p, where uid = "''u1''" and q = 9] p
    by (simp add: ex_defs cart_quantity_of_def)
qed

section \<open>The webhook\<close>

text \<open>
  C3. When the HMAC of the raw body under the shared secret differs from the signature
  header (or the header is absent), the webhook answers 401 "Invalid signature" and
  returns the database as it was: no order, cart or stock row changes, whatever the body
  parses to.
\<close>

theorem webhook_rejects_bad_signature:
  "Some (hmac_hex key body) \<noteq> signature \<Longrightarrow>
   webhook hmac_hex json_parse rpc_decrement_stock (Some key) body signature st
     = (Err 401 ''Invalid signature'', st)"
  by (simp add: webhook_def)

text \<open>
  The body names the example order and would be processed under its own signature; sent
  with the signature of another body it is rejected.
\<close>

theorem webhook_rejects_bad_signature_witness:
  "Some (ex_hmac ''secret'' ''paid-in-full'') \<noteq> Some ''secret:paid-one-kobo''
   \<and> ex_parse ''paid-in-full'' = Some (ex_event 2000000)
   \<and> order_by_id ''o1'' ex_db = Some ex_order
   \<and> webhook ex_hmac ex_parse decrement_stock (Some ''secret'') ''paid-in-full''
        (Some ''secret:paid-one-kobo'') ex_db
       = (Err 401 ''Invalid signature'', ex_db)
   \<and> fst (webhook ex_hmac ex_parse decrement_stock (Some ''secret'') ''paid-in-full''
        (Some ''secret:paid-in-full'') ex_db) = Processed ''o1''"
proof -
  have bad: "Some (ex_hmac ''secret'' ''paid-in-full'') \<noteq> Some ''secret:paid-one-kobo''"
    by (simp add: ex_hmac_def)
  show ?thesis
    using webhook_rejects_bad_signature
      [where hmac_hex = ex_hmac and key = "''secret''" and body = "''paid-in-full''"
         and signature = "Some ''secret:paid-one-kobo''" and json_parse = ex_parse
         and rpc_decrement_stock = decrement_stock and st = ex_db] bad
    by (simp add: webhook_def handle_event_def charge_success_def Let_def ex_defs db_defs)
qed

text \<open>
  C8. Two validly signed webhook requests whose events differ only in the amount field
  get the same reply and leave the same database. For a \<^verbatim>\<open>charge.success\<close> event whose
  metadata names an order that exists and a user, that outcome is: the order is marked
  paid and processing, the user's cart is cleared and the stock of every order line is
  decremented, whatever the amount and whatever the order's total.
\<close>

theorem webhook_ignores_amount:
  assumes sig1: "signature = Some (hmac_hex key body)"
    and sig2: "signature' = Some (hmac_hex key body')"
    and ev1: "json_parse body = Some (ev\<lparr>ev_data := Some d\<rparr>)"
    and ev2: "json_parse body' = Some (ev\<lparr>ev_data := Some (d\<lparr>ev_amount := a\<rparr>)\<rparr>)"
  shows "webhook hmac_hex json_parse rpc_decrement_stock (Some key) body' signature' st
           = webhook hmac_hex json_parse rpc_decrement_stock (Some key) body signature st
    \<and> (ev_event ev = ''charge.success'' \<and> ev_metadata d = Some m
         \<and> meta_order_id m = Some oid \<and> oid \<noteq> [] \<and> meta_user_id m = Some uid \<and> uid \<noteq> []
         \<and> order_by_id oid st = Some ord \<longrightarrow>
        fst (webhook hmac_hex json_parse decrement_stock (Some key) body' signature' st)
          = Processed oid
        \<and> order_by_id oid
            (snd (webhook hmac_hex json_parse decrement_stock (Some key) body' signature' st))
          = Some (set_reference (ev_reference d)
                    (ord\<lparr>payment_status := Pay_success, order_status := Ord_processing\<rparr>))
        \<and> cart (snd (webhook hmac_hex json_parse decrement_stock (Some key) body' signature' st))
          = filter (\<lambda>c. cart_user_id c \<noteq> uid) (cart st)
        \<and> products
            (snd (webhook hmac_hex json_parse decrement_stock (Some key) body' signature' st))
          = products (foldl (\<lambda>s i. decrement_stock (product_id i) (quantity i) s) st
                        (order_items ord)))"
proof -
  have same: "webhook hmac_hex json_parse rpc (Some key) body' signature' st
           = webhook hmac_hex json_parse rpc (Some key) body signature st" for rpc
    using assms by (simp add: webhook_def handle_event_amount)
  have out: "fst (webhook hmac_hex json_parse decrement_stock (Some key) body' signature' st)
          = Processed oid
        \<and> order_by_id oid
            (snd (webhook hmac_hex json_parse decrement_stock (Some key) body' signature' st))
          = Some (set_reference (ev_reference d)
                    (ord\<lparr>payment_status := Pay_success, order_status := Ord_processing\<rparr>))
        \<and> cart (snd (webhook hmac_hex json_parse decrement_stock (Some key) body' signature' st))
          = filter (\<lambda>c. cart_user_id c \<noteq> uid) (cart st)
        \<and> products
            (snd (webhook hmac_hex json_parse decrement_stock (Some key) body' signature' st))
          = products (foldl (\<lambda>s i. decrement_stock (product_id i) (quantity i) s) st
                        (order_items ord))"
    if h: "ev_event ev = ''charge.success''" "ev_metadata d = Some m"
      "meta_order_id m = Some oid" "oid \<noteq> []" "meta_user_id m = Some uid" "uid \<noteq> []"
      "order_by_id oid st = Some ord"
  proof -
    let ?f = "\<lambda>r. set_reference (ev_reference d)
                     (r\<lparr>payment_status := Pay_success, order_status := Ord_processing\<rparr>)"
    let ?st2 = "clear_cart uid (update_order oid ?f st)"
    have w: "webhook hmac_hex json_parse decrement_stock (Some key) body' signature' st
        = (Processed oid,
           foldl (\<lambda>s i. decrement_stock (product_id i) (quantity i) s) ?st2 (order_items ord))"
      using sig1 sig2 ev1 ev2 h
      by (simp add: same [of decrement_stock] webhook_def handle_event_def charge_success_found)
    have o: "order_by_id oid ?st2 = Some (?f ord)"
      using h(7) by (simp add: order_by_id_update_order)
    have p: "products ?st2 = products st"
      by (simp add: clear_cart_def update_order_def)
    show ?thesis
      unfolding w using o decrement_all_products [OF p, of "order_items ord"]
      by (simp add: order_by_id_def decrement_all_frame clear_cart_def update_order_def)
  qed
  show ?thesis using same out by blast
qed

text \<open>
  The example order totals 20000, that is 2000000 kobo. An event that reports one kobo
  is processed like the event that reports the full amount.
\<close>

theorem webhook_ignores_amount_witness:
  "order_total ex_order * 100 = 2000000
   \<and> webhook ex_hmac ex_parse decrement_stock (Some ''secret'') ''paid-one-kobo''
        (Some ''secret:paid-one-kobo'') ex_db
       = webhook ex_hmac ex_parse decrement_stock (Some ''secret'') ''paid-in-full''
           (Some ''secret:paid-in-full'') ex_db
   \<and> fst (webhook ex_hmac ex_parse decrement_stock (Some ''secret'') ''paid-one-kobo''
        (Some ''secret:paid-one-kobo'') ex_db) = Processed ''o1''
   \<and> map payment_status (orders (snd (webhook ex_hmac ex_parse decrement_stock (Some ''secret'')
        ''paid-one-kobo'' (Some ''secret:paid-one-kobo'') ex_db))) = [Pay_success]
   \<and> cart (snd (webhook ex_hmac ex_parse decrement_stock (Some ''secret'')
        ''paid-one-kobo'' (Some ''secret:paid-one-kobo'') ex_db)) = []
   \<and> map stock (products (snd (webhook ex_hmac ex_parse decrement_stock (Some ''secret'')
        ''paid-one-kobo'' (Some ''secret:paid-one-kobo'') ex_db))) = [8]"
  using webhook_ignores_amount
    [where hmac_hex = ex_hmac and key = "''secret''" and json_parse = ex_parse
       and body = "''paid-in-full''" and signature = "Some ''secret:paid-in-full''"
       and body' = "''paid-one-kobo''" and signature' = "Some ''secret:paid-one-kobo''"
       and ev = "ex_event 2000000" and d = "ex_event_data 2000000" and a = "Some 1"
       and rpc_decrement_stock = decrement_stock and st = ex_db and m = ex_metadata
       and oid = "''o1''" and uid = "''u1''" and ord = ex_order]
  by (simp add: webhook_def handle_event_def charge_success_def Let_def ex_defs db_defs)

section \<open>Payment references\<close>

lemma digit_char_inj: "a < 10 \<Longrightarrow> b < 10 \<Longrightarrow> digit_char a = digit_char b \<Longrightarrow> a = b"
proof -
  assume a: "a < 10" and b: "b < 10" and e: "digit_char a = digit_char b"
  have "distinct ''0123456789''" by simp
  moreover have "a < length ''0123456789''" "b < length ''0123456789''" using a b by simp_all
  ultimately show "a = b" using e unfolding digit_char_def
    by (simp only: nth_eq_iff_index_eq)
qed

lemma digit_char_digit: "n < 10 \<Longrightarrow> digit_char n \<in> set ''0123456789''"
  unfolding digit_char_def by (rule nth_mem) simp

lemma show_nat_nonempty: "show_nat n \<noteq> []"
  by (subst show_nat.simps) simp

lemma show_nat_digits: "set (show_nat n) \<subseteq> set ''0123456789''"
proof (induction n rule: show_nat.induct)
  case (1 n)
  show ?case
  proof (cases "n < 10")
    case True
    then show ?thesis using digit_char_digit [of n] by (subst show_nat.simps) simp
  next
    case False
    then have "set (show_nat (n div 10)) \<subseteq> set ''0123456789''" using 1 by simp
    moreover have "digit_char (n mod 10) \<in> set ''0123456789''"
      by (rule digit_char_digit) simp
    ultimately show ?thesis using False by (subst show_nat.simps) simp
  qed
qed

lemma show_nat_inj: "show_nat m = show_nat n \<Longrightarrow> m = n"
proof (induction m arbitrary: n rule: show_nat.induct)
  case (1 m)
  show ?case
  proof (cases "m < 10")
    case m: True
    show ?thesis
    proof (cases "n < 10")
      case True
      with m 1(2) show ?thesis
        by (simp add: show_nat.simps [of m] show_nat.simps [of n] digit_char_inj)
    next
      case False
      with m 1(2) show_nat_nonempty [of "n div 10"] show ?thesis
        by (simp add: show_nat.simps [of m] show_nat.simps [of n])
    qed
  next
    case m: False
    show ?thesis
    proof (cases "n < 10")
      case True
      with m 1(2) show_nat_nonempty [of "m div 10"] show ?thesis
        by (simp add: show_nat.simps [of m] show_nat.simps [of n])
    next
      case False
      with m 1(2) have eq: "show_nat (m div 10) = show_nat (n div 10)"
        and d: "digit_char (m mod 10) = digit_char (n mod 10)"
        by (simp_all add: show_nat.simps [of m] show_nat.simps [of n])
      from 1(1) [OF m eq] have "m div 10 = n div 10" .
      moreover from d have "m mod 10 = n mod 10" by (intro digit_char_inj) simp_all
      ultimately show ?thesis by (metis div_mult_mod_eq)
    qed
  qed
qed

lemma split_at_last:
  assumes "xs @ c # ys = xs' @ c # ys'" "c \<notin> set ys" "c \<notin> set ys'"
  shows "xs = xs' \<and> ys = ys'"
proof -
  have tw: "takeWhile (\<lambda>x. x \<noteq> c) (rev zs @ c # ws) = rev zs" if "c \<notin> set zs" for zs ws
    using that by (auto simp: takeWhile_tail)
  have "rev ys @ c # rev xs = rev ys' @ c # rev xs'"
    using arg_cong [OF assms(1), of rev] by simp
  then have "takeWhile (\<lambda>x. x \<noteq> c) (rev ys @ c # rev xs)
      = takeWhile (\<lambda>x. x \<noteq> c) (rev ys' @ c # rev xs')"
    by simp
  then have "rev ys = rev ys'"
    using tw [OF assms(2), of "rev xs"] tw [OF assms(3), of "rev xs'"] by simp
  then have "ys = ys'" by simp
  then show ?thesis using assms(1) by simp
qed

lemma make_reference_inj:
  "make_reference a m = make_reference b n \<longleftrightarrow> a = b \<and> m = n"
proof
  assume e: "make_reference a m = make_reference b n"
  have us: "CHR ''_'' \<notin> set (show_nat k)" for k
    using show_nat_digits [of k] by auto
  from e have "a @ CHR ''_'' # show_nat m = b @ CHR ''_'' # show_nat n"
    by (simp add: make_reference_def)
  then have "a = b \<and> show_nat m = show_nat n"
    using us by (intro split_at_last [where c = "CHR ''_''"]) simp_all
  then show "a = b \<and> m = n" using show_nat_inj by blast
qed simp

lemma update_order_append_fresh:
  assumes "oid \<notin> order_id ` set (orders st)" "order_id ord = oid"
  shows "update_order oid f (st\<lparr>orders := orders st @ [ord]\<rparr>) = st\<lparr>orders := orders st @ [f ord]\<rparr>"
proof -
  have "map (\<lambda>r. if order_id r = oid then f r else r) (orders st) = orders st"
    using assms(1) by (intro map_idI) auto
  then show ?thesis using assms(2) by (simp add: update_order_def)
qed

lemma filter_fresh:
  assumes "oid \<notin> order_id ` set xs"
  shows "filter (\<lambda>r. order_id r = oid \<and> P r) xs = []"
  using assms by (auto simp: filter_empty_conv)

section \<open>Order creation: gateway failure and retry\<close>

text \<open>
  C7. When order creation reaches the gateway and the initialize call fails, the order
  stays in the orders table with order status \<open>payment_failed\<close>, payment status
  \<open>pending\<close> and no payment reference, and the reply is the 500 error that carries the
  new order's id. A later retry for that order, answered by a gateway that returns the
  reference it was sent, stores the freshly generated reference
  \<open>make_reference new_id now'\<close> on the order. Generated references are unique in the
  sense that two of them are equal only for the same order id and the same clock reading.
\<close>

theorem gateway_failure_keeps_order_for_retry:
  assumes body: "body_state body = Some state" "state \<noteq> []"
      "body_city body = Some city" "city \<noteq> []"
      "body_address body = Some address" "address \<noteq> []"
      "body_email body = Some email" "email \<noteq> []"
    and region: "validateNigerianState state"
    and cart: "filter (\<lambda>c. cart_user_id c = uid) (cart st) \<noteq> []"
    and items: "build_order_items st (filter (\<lambda>c. cart_user_id c = uid) (cart st)) = Inr orderItems"
    and fresh: "new_id \<notin> order_id ` set (orders st)"
    and down: "\<forall>req. req_reference req = make_reference new_id now \<longrightarrow> paystack_initialize req = None"
    and up: "\<forall>req. \<exists>resp. retry_gateway req = Some resp \<and> reference resp = req_reference req"
    and email': "email' \<noteq> []"
  shows "\<exists>ord.
      create_order paystack_initialize new_id now uid body st
        = (Err_order 500 ''Order created but payment initialization failed'' new_id,
           st\<lparr>orders := orders st @ [ord]\<rparr>)
      \<and> order_id ord = new_id \<and> user_id ord = uid \<and> order_items ord = orderItems
      \<and> order_total ord = total (calculateOrderTotals orderItems (Some state) None)
      \<and> order_status ord = Ord_payment_failed \<and> payment_status ord = Pay_pending
      \<and> payment_reference ord = None
      \<and> (\<exists>resp.
            retry_payment retry_gateway now' uid new_id (Some email') (st\<lparr>orders := orders st @ [ord]\<rparr>)
              = (Payment_initialized resp,
                 st\<lparr>orders := orders st @ [ord\<lparr>payment_reference := Some (make_reference new_id now')\<rparr>]\<rparr>)
            \<and> reference resp = make_reference new_id now')
      \<and> (make_reference new_id now' = make_reference other_id other_now \<longleftrightarrow> other_id = new_id \<and> other_now = now')"
proof -
  define tot where "tot = calculateOrderTotals orderItems (Some state) None"
  define ord0 where "ord0 =
     \<lparr>order_id = new_id, user_id = uid, order_items = orderItems,
      order_subtotal = subtotal tot, delivery_fee = deliveryFee tot,
      discount_code = or_null (body_discount_code body), order_total = total tot,
      order_state = state, order_city = city, order_address = address,
      order_phone = or_null (body_phone body), payment_status = Pay_pending,
      order_status = Ord_pending, payment_reference = None\<rparr>"
  define ord where "ord = ord0\<lparr>order_status := Ord_payment_failed\<rparr>"
  define st1 where "st1 = st\<lparr>orders := orders st @ [ord]\<rparr>"
  have id0: "order_id ord0 = new_id" by (simp add: ord0_def)
  have created: "create_order paystack_initialize new_id now uid body st
        = (Err_order 500 ''Order created but payment initialization failed'' new_id, st1)"
    using body region cart items fresh down
    by (simp add: create_order_def Let_def tot_def [symmetric] ord0_def [symmetric]
        update_order_append_fresh [OF fresh id0] st1_def ord_def)
  have fields: "order_id ord = new_id" "user_id ord = uid" "order_items ord = orderItems"
    "order_total ord = total (calculateOrderTotals orderItems (Some state) None)"
    "order_status ord = Ord_payment_failed" "payment_status ord = Pay_pending"
    "payment_reference ord = None"
    by (simp_all add: ord_def ord0_def tot_def)
  have found: "single (filter (\<lambda>r. order_id r = new_id \<and> user_id r = uid) (orders st1)) = Some ord"
    using filter_fresh [OF fresh, of "\<lambda>r. user_id r = uid"] fields
    by (simp add: st1_def single_def)
  let ?req = "\<lparr>req_email = email', req_amount = to_kobo (js_number (order_total ord)),
               req_reference = make_reference (order_id ord) now',
               req_order_id = order_id ord, req_user_id = uid\<rparr>"
  obtain resp where resp: "retry_gateway ?req = Some resp" "reference resp = req_reference ?req"
    using up by blast
  have retried: "retry_payment retry_gateway now' uid new_id (Some email') st1
      = (Payment_initialized resp,
         st\<lparr>orders := orders st @ [ord\<lparr>payment_reference := Some (make_reference new_id now')\<rparr>]\<rparr>)"
    using email' found resp fields(1,6)
    by (simp add: retry_payment_def Let_def st1_def update_order_append_fresh [OF fresh fields(1)])
  have uniq: "make_reference new_id now' = make_reference other_id other_now \<longleftrightarrow> other_id = new_id \<and> other_now = now'"
    by (auto simp: make_reference_inj)
  show ?thesis
    using created fields retried resp(2) uniq unfolding st1_def
    by (intro exI [of _ ord]) (simp add: fields(1))
qed

text \<open>
  The example user, with two units in the cart, checks out while the gateway is down and
  retries half a second later.
\<close>

theorem gateway_failure_keeps_order_for_retry_witness:
  "(\<exists>ord.
      create_order ex_gateway_down ''o2'' 1700000000000 ''u1'' (ex_body ''Lagos'') ex_db
        = (Err_order 500 ''Order created but payment initialization failed'' ''o2'',
           ex_db\<lparr>orders := [ex_order, ord]\<rparr>)
      \<and> order_id ord = ''o2'' \<and> order_total ord = 20000
      \<and> order_status ord = Ord_payment_failed \<and> payment_status ord = Pay_pending
      \<and> payment_reference ord = None
      \<and> snd (retry_payment ex_gateway_up 1700000000500 ''u1'' ''o2'' (Some ''ada@example.com'')
                (ex_db\<lparr>orders := [ex_order, ord]\<rparr>))
          = ex_db\<lparr>orders := [ex_order, ord\<lparr>payment_reference := Some ''order_o2_1700000000500''\<rparr>]\<rparr>)
   \<and> make_reference ''o2'' 1700000000500 \<noteq> make_reference ''o2'' 1700000000000"
proof -
  have items: "build_order_items ex_db (filter (\<lambda>c. cart_user_id c = ''u1'') (cart ex_db)) = Inr ex_items"
    by (simp add: ex_defs db_defs)
  have region: "validateNigerianState ''Lagos''"
    by (simp add: validateNigerianState_def nigerianStates_def lower_defs)
  have tot: "total (calculateOrderTotals ex_items (Some ''Lagos'') None) = 20000"
    by (simp only: ex_items_totals(1) [OF fee_lagos(2)] totals.select_convs)
  have ref: "make_reference ''o2'' 1700000000500 = ''order_o2_1700000000500''"
    by (simp add: make_reference_def show_nat.simps digit_char_def)
  have down: "\<forall>req. req_reference req = make_reference ''o2'' 1700000000000 \<longrightarrow> ex_gateway_down req = None"
    by (simp add: ex_gateway_down_def)
  have up: "\<forall>req. \<exists>resp. ex_gateway_up req = Some resp \<and> reference resp = req_reference req"
    by (simp add: ex_gateway_up_def)
  have fresh: "''o2'' \<notin> order_id ` set (orders ex_db)"
    by (simp add: ex_defs)
  have cart: "filter (\<lambda>c. cart_user_id c = ''u1'') (cart ex_db) \<noteq> []"
    by (simp add: ex_defs)
  from gateway_failure_keeps_order_for_retry
    [where body = "ex_body ''Lagos''" and state = "''Lagos''" and city = "''Ikeja''"
       and address = "''1 Allen Avenue''" and email = "''ada@example.com''"
       and uid = "''u1''" and st = ex_db and orderItems = ex_items and new_id = "''o2''"
       and now = 1700000000000 and paystack_initialize = ex_gateway_down
       and retry_gateway = ex_gateway_up and email' = "''ada@example.com''"
       and now' = 1700000000500 and other_id = "''o2''" and other_now = 1700000000000,
     OF _ _ _ _ _ _ _ _ region cart items fresh down up]
  obtain ord where ord:
    "create_order ex_gateway_down ''o2'' 1700000000000 ''u1'' (ex_body ''Lagos'') ex_db
        = (Err_order 500 ''Order created but payment initialization failed'' ''o2'',
           ex_db\<lparr>orders := orders ex_db @ [ord]\<rparr>)"
    "order_id ord = ''o2''" "order_total ord = total (calculateOrderTotals ex_items (Some ''Lagos'') None)"
    "order_status ord = Ord_payment_failed" "payment_status ord = Pay_pending"
    "payment_reference ord = None"
    "\<exists>resp. retry_payment ex_gateway_up 1700000000500 ''u1'' ''o2'' (Some ''ada@example.com'')
         (ex_db\<lparr>orders := orders ex_db @ [ord]\<rparr>)
       = (Payment_initialized resp,
          ex_db\<lparr>orders := orders ex_db @ [ord\<lparr>payment_reference := Some (make_reference ''o2'' 1700000000500)\<rparr>]\<rparr>)
       \<and> reference resp = make_reference ''o2'' 1700000000500"
    "make_reference ''o2'' 1700000000500 = make_reference ''o2'' 1700000000000
       \<longleftrightarrow> ''o2'' = ''o2'' \<and> (1700000000000::nat) = 1700000000500"
    by (auto simp: ex_body_def)
  have o: "orders ex_db = [ex_order]" by (simp add: ex_db_def)
  from ord(7) obtain resp where
    "retry_payment ex_gateway_up 1700000000500 ''u1'' ''o2'' (Some ''ada@example.com'')
         (ex_db\<lparr>orders := [ex_order, ord]\<rparr>)
       = (Payment_initialized resp,
          ex_db\<lparr>orders := [ex_order, ord\<lparr>payment_reference := Some ''order_o2_1700000000500''\<rparr>]\<rparr>)"
    by (auto simp: o ref)
  then have r: "snd (retry_payment ex_gateway_up 1700000000500 ''u1'' ''o2'' (Some ''ada@example.com'')
         (ex_db\<lparr>orders := [ex_order, ord]\<rparr>))
       = ex_db\<lparr>orders := [ex_order, ord\<lparr>payment_reference := Some ''order_o2_1700000000500''\<rparr>]\<rparr>"
    by simp
  have ne: "make_reference ''o2'' 1700000000500 \<noteq> make_reference ''o2'' 1700000000000"
    using ord(8) by simp
  show ?thesis
    using ord(1-6) r ne tot by (intro conjI exI [of _ ord]) (simp_all add: o)
qed

section \<open>Reconciliation: webhook and manual verification\<close>

text \<open>
  C2 (evaluation of the code). Manual verification never changes the products table: on
  the example order, still pending, it marks the order paid and clears the cart but
  leaves the stock at 10, while the webhook on the same database takes the two ordered
  units off the stock.
\<close>

theorem verify_never_decrements_stock:
  "products (snd (verify paystack_verify uid reference_opt st)) = products st
   \<and> fst (verify ex_verify_success ''u1'' (Some ''ref1'') ex_db)
       = Verified (ex_order\<lparr>payment_status := Pay_success, order_status := Ord_processing\<rparr>)
   \<and> map stock (products (snd (verify ex_verify_success ''u1'' (Some ''ref1'') ex_db))) = [10]
   \<and> fst (webhook ex_hmac ex_parse decrement_stock (Some ''secret'') ''paid-in-full''
            (Some ''secret:paid-in-full'') ex_db) = Processed ''o1''
   \<and> map stock (products (snd (webhook ex_hmac ex_parse decrement_stock (Some ''secret'')
            ''paid-in-full'' (Some ''secret:paid-in-full'') ex_db))) = [8]"
proof -
  have frame: "products (snd (verify paystack_verify uid reference_opt st)) = products st"
    by (simp add: verify_def Let_def clear_cart_def update_order_def
        split: option.splits verify_result.splits)
  have v: "verify ex_verify_success ''u1'' (Some ''ref1'') ex_db
      = (Verified (ex_order\<lparr>payment_status := Pay_success, order_status := Ord_processing\<rparr>),
         ex_db\<lparr>cart := [],
               orders := [ex_order\<lparr>payment_status := Pay_success, order_status := Ord_processing\<rparr>]\<rparr>)"
    by (simp add: verify_def ex_verify_success_def Let_def ex_defs db_defs)
  have w: "webhook ex_hmac ex_parse decrement_stock (Some ''secret'') ''paid-in-full''
            (Some ''secret:paid-in-full'') ex_db
      = (Processed ''o1'',
         \<lparr>products = [ex_product\<lparr>stock := 8\<rparr>], cart = [],
          orders = [ex_order\<lparr>payment_status := Pay_success, order_status := Ord_processing\<rparr>]\<rparr>)"
    by (simp add: webhook_def handle_event_def charge_success_def Let_def ex_defs db_defs)
  show ?thesis
    unfolding v w using frame by (simp add: ex_defs)
qed

text \<open>
  C1 (evaluation of the code). Verification first, webhook second: verification marks
  the example order paid and clears the cart; the user then puts one unit in the cart;
  the webhook for the same order, which is already paid, is processed again and empties
  the cart a second time. In the other order the second trigger, verification, finds the
  order paid and changes nothing. A webhook delivered twice takes the ordered units off
  the stock twice.
\<close>

theorem webhook_after_verify_repeats_effects:
  "(let s1 = snd (verify ex_verify_success ''u1'' (Some ''ref1'') ex_db);
        s2 = snd (cart_add ''u1'' (Some ''p1'') (Some 1) s1);
        r3 = webhook ex_hmac ex_parse decrement_stock (Some ''secret'') ''paid-in-full''
               (Some ''secret:paid-in-full'') s2
    in map payment_status (orders s1) = [Pay_success]
       \<and> cart s1 = []
       \<and> cart s2 = [\<lparr>cart_user_id = ''u1'', cart_product_id = ''p1'', cart_quantity = 1\<rparr>]
       \<and> map payment_status (orders s2) = [Pay_success]
       \<and> fst r3 = Processed ''o1''
       \<and> cart (snd r3) = []
       \<and> snd r3 \<noteq> s2)
   \<and> (let t1 = snd (webhook ex_hmac ex_parse decrement_stock (Some ''secret'') ''paid-in-full''
                      (Some ''secret:paid-in-full'') ex_db);
          t2 = snd (cart_add ''u1'' (Some ''p1'') (Some 1) t1)
      in verify ex_verify_success ''u1'' (Some ''ref1'') t2 = (Already_verified ''o1'', t2))
   \<and> map stock (products (snd (webhook ex_hmac ex_parse decrement_stock (Some ''secret'')
        ''paid-in-full'' (Some ''secret:paid-in-full'')
        (snd (webhook ex_hmac ex_parse decrement_stock (Some ''secret'') ''paid-in-full''
               (Some ''secret:paid-in-full'') ex_db))))) = [6]"
proof -
  have v: "snd (verify ex_verify_success ''u1'' (Some ''ref1'') ex_db)
      = ex_db\<lparr>cart := [],
               orders := [ex_order\<lparr>payment_status := Pay_success, order_status := Ord_processing\<rparr>]\<rparr>"
    by (simp add: verify_def ex_verify_success_def Let_def ex_defs db_defs)
  have w: "snd (webhook ex_hmac ex_parse decrement_stock (Some ''secret'') ''paid-in-full''
            (Some ''secret:paid-in-full'') ex_db)
      = \<lparr>products = [ex_product\<lparr>stock := 8\<rparr>], cart = [],
          orders = [ex_order\<lparr>payment_status := Pay_success, order_status := Ord_processing\<rparr>]\<rparr>"
    by (simp add: webhook_def handle_event_def charge_success_def Let_def ex_defs db_defs)
  show ?thesis
    unfolding v w
    by (simp add: Let_def cart_add_def webhook_def handle_event_def charge_success_def verify_def
        ex_verify_success_def ex_defs db_defs)
qed

end
